theory Spec2Isabelle
  imports Main "HOL-Library.AList" "HOL-Library.Char_ord" "HOL-Library.List_Lexorder"
begin

section \<open>The chat server's state\<close>

text \<open>
  The server of \<^verbatim>\<open>src/server.py\<close> is the class \<^verbatim>\<open>XsukaxChatServer\<close>: six
  dictionaries and one handler per inbound action. The handlers are coroutines of one
  event loop; the embedding takes a handler as one step, a function from the state to
  the new state and the frames it sends (no other handler runs while one waits for a
  send). The snapshot that \<^verbatim>\<open>save_state\<close> writes is not part of the state.

  Conventions of the embedding:
  \<^item> an identity code is a \<open>string\<close> (ASCII text; a \<open>char\<close> is one character);
  \<^item> a websocket is an opaque handle (a number) for the \<^verbatim>\<open>web.WebSocketResponse\<close>
    that \<^verbatim>\<open>handle_websocket\<close> creates; it is truthy, and \<^verbatim>\<open>send_str\<close> on it
    succeeds. That class has no method \<^verbatim>\<open>send\<close>: the two places that call
    \<^verbatim>\<open>.send(...)\<close> raise an \<^verbatim>\<open>AttributeError\<close>, which the handler catches;
  \<^item> \<^verbatim>\<open>time.time()\<close> is the parameter \<open>now\<close> of a handler;
  \<^item> a field of the request that is absent is \<open>None\<close>; a field that is present
    has the JSON type the handler expects (a string, or a boolean for the key flags);
  \<^item> \<^verbatim>\<open>self.messages\<close> is an association list in insertion order, since the
    adoption path walks its keys in order; the other dictionaries are maps;
  \<^item> indexing a \<^verbatim>\<open>defaultdict\<close> inserts the default under a missing key:
    \<open>setdefault\<close>;
  \<^item> the dictionaries hold values: where \<^verbatim>\<open>resume_session\<close> stores one object
    under a second key, it deletes the first key before it returns, so no two keys share
    an object when a handler ends.
\<close>

type_synonym code = string
type_synonym ws = nat
type_synonym timestamp = nat

record user_rec =
  websocket :: "ws option"
  public_key :: "string option"
  last_seen :: timestamp

record key_flags =
  private_key_loaded :: bool
  public_key_loaded :: bool

record request =
  req_sender_id :: code
  req_timestamp :: timestamp

record message =
  msg_sender_id :: code
  msg_target_id :: code
  msg_encrypted_message :: string
  msg_timestamp :: timestamp

type_synonym friend_info = "code \<times> string option \<times> timestamp option \<times> bool"

datatype event =
    UserIdAssigned code
  | Pong
  | PublicKeySet key_flags
  | KeyStatusUpdated key_flags
  | KeyStatus key_flags
  | FriendKeyUpdated code string
  | FriendRequestReceived code timestamp
  | FriendRequestSent code
  | FriendAdded code "string option"
  | FriendRequestRejected code
  | MessageReceived code code string timestamp
  | FriendsList "friend_info set"
  | ConversationMessages code "message list" nat
  | Error string

type_synonym frames = "(ws \<times> event) list"

record state =
  users :: "code \<rightharpoonup> ws"
  user_data :: "code \<rightharpoonup> user_rec"
  friends :: "code \<rightharpoonup> code set"
  friend_requests :: "code \<rightharpoonup> request list"
  messages :: "(string \<times> message list) list"
  key_status :: "code \<rightharpoonup> key_flags"

definition init_state :: state where
  "init_state = \<lparr>users = Map.empty, user_data = Map.empty, friends = Map.empty,
     friend_requests = Map.empty, messages = [], key_status = Map.empty\<rparr>"

definition setdefault :: "('k \<rightharpoonup> 'v) \<Rightarrow> 'k \<Rightarrow> 'v \<Rightarrow> ('k \<rightharpoonup> 'v)" where
  "setdefault m k d = (case m k of None \<Rightarrow> m(k \<mapsto> d) | Some v \<Rightarrow> m)"

definition friends_of :: "state \<Rightarrow> code \<Rightarrow> code set" where
  "friends_of s u = (case friends s u of None \<Rightarrow> {} | Some fset \<Rightarrow> fset)"

definition pending_of :: "state \<Rightarrow> code \<Rightarrow> request list" where
  "pending_of s u = (case friend_requests s u of None \<Rightarrow> [] | Some reqs \<Rightarrow> reqs)"

definition conversation :: "state \<Rightarrow> string \<Rightarrow> message list" where
  "conversation s cid = (case map_of (messages s) cid of None \<Rightarrow> [] | Some log \<Rightarrow> log)"

subsection \<open>Sending\<close>

text \<open>\<^verbatim>\<open>ws_send\<close> delivers to the handle bound to the code, and does nothing when
  there is none; \<^verbatim>\<open>send_error\<close> is \<^verbatim>\<open>ws_send\<close> of an error frame.\<close>

definition ws_send :: "state \<Rightarrow> code \<Rightarrow> event \<Rightarrow> frames" where
  "ws_send s user_id payload =
     (case users s user_id of None \<Rightarrow> [] | Some w \<Rightarrow> [(w, payload)])"

definition send_error :: "state \<Rightarrow> code \<Rightarrow> string \<Rightarrow> frames" where
  "send_error s user_id msg =
     (if users s user_id = None then [] else ws_send s user_id (Error msg))"

subsection \<open>Key status\<close>

text \<open>
  \<^verbatim>\<open>set_key_status\<close>: both flags are read with \<^verbatim>\<open>data.get(field, False)\<close>.
  For a code with a status entry the private flag is stored as read and the public flag
  is stored only when it reads true; the entry is then sent to the code's connection.
  A code with no entry is left alone and nothing is sent.
\<close>

definition get_flag :: "bool option \<Rightarrow> bool" where
  "get_flag field = (case field of None \<Rightarrow> False | Some b \<Rightarrow> b)"

definition set_key_status ::
    "state \<Rightarrow> code \<Rightarrow> bool option \<Rightarrow> bool option \<Rightarrow> state \<times> frames" where
  "set_key_status s user_id data_private data_public =
     (let private_loaded = get_flag data_private;
          public_loaded = get_flag data_public
      in case key_status s user_id of
           None \<Rightarrow> (s, [])
         | Some st \<Rightarrow>
             (let st1 = st\<lparr>private_key_loaded := private_loaded\<rparr>;
                  st2 = (if public_loaded then st1\<lparr>public_key_loaded := public_loaded\<rparr>
                         else st1);
                  s' = s\<lparr>key_status := (key_status s)(user_id \<mapsto> st2)\<rparr>
              in (s', ws_send s' user_id (KeyStatusUpdated st2))))"

text \<open>\<^verbatim>\<open>get_key_status\<close> builds the answer and calls
  \<^verbatim>\<open>self.users[user_id].send(...)\<close>: the lookup raises for a code with no binding
  and the call raises for a bound one; the handler logs the exception and sends
  nothing.\<close>

definition get_key_status :: "state \<Rightarrow> code \<Rightarrow> state \<times> frames" where
  "get_key_status s user_id = (s, [])"

definition handle_ping :: "state \<Rightarrow> code \<Rightarrow> state \<times> frames" where
  "handle_ping s user_id = (s, ws_send s user_id Pong)"

subsection \<open>Codes and conversation keys\<close>

text \<open>
  \<^verbatim>\<open>str.upper\<close> on ASCII text maps \<open>a\<close>..\<open>z\<close> to \<open>A\<close>..\<open>Z\<close> and keeps every
  other character; \<^verbatim>\<open>str.strip\<close> drops the ASCII white space at both ends (tab,
  line feed, vertical tab, form feed, carriage return, the four separators 28..31 and
  the space). \<^verbatim>\<open>str.split('_')\<close> cuts at every underscore and always returns at
  least one part. The fields of a request are ASCII text here: on other characters
  Python's \<^verbatim>\<open>upper\<close> and \<^verbatim>\<open>strip\<close> do more than \<open>upper\<close> and \<open>strip\<close> below
  (they map letters beyond \<open>z\<close> and drop the no-break space), and no statement of
  this theory is about such a field.
\<close>

definition upper_char :: "char \<Rightarrow> char" where
  "upper_char c =
     (if CHR ''a'' \<le> c \<and> c \<le> CHR ''z'' then char_of (of_char c - (32::nat)) else c)"

definition upper :: "string \<Rightarrow> string" where
  "upper str = map upper_char str"

definition is_space :: "char \<Rightarrow> bool" where
  "is_space c = (of_char c \<in> {9, 10, 11, 12, 13, 28, 29, 30, 31, 32 :: nat})"

definition strip :: "string \<Rightarrow> string" where
  "strip str = rev (dropWhile is_space (rev (dropWhile is_space str)))"

fun str_split :: "char \<Rightarrow> string \<Rightarrow> string list" where
  "str_split sep [] = [[]]"
| "str_split sep (c # cs) =
     (if c = sep then [] # str_split sep cs
      else (case str_split sep cs of [] \<Rightarrow> [[c]] | p # ps \<Rightarrow> (c # p) # ps))"

text \<open>\<^verbatim>\<open>get_conversation_id\<close> is \<^verbatim>\<open>'_'.join(sorted([user1_id, user2_id]))\<close>; Python
  compares strings lexicographically by character, which is the order of
  \<open>char list\<close> here.\<close>

definition get_conversation_id :: "code \<Rightarrow> code \<Rightarrow> string" where
  "get_conversation_id user1_id user2_id =
     (if user2_id < user1_id then user2_id @ ''_'' @ user1_id
      else user1_id @ ''_'' @ user2_id)"

definition get_str :: "string option \<Rightarrow> string" where
  "get_str field = (case field of None \<Rightarrow> [] | Some str \<Rightarrow> str)"

subsection \<open>Friends list\<close>

text \<open>\<^verbatim>\<open>get_friends\<close> indexes \<^verbatim>\<open>self.friends[user_id]\<close> (which inserts an empty set
  for a new key), joins each friend with its record and its presence in
  \<^verbatim>\<open>self.users\<close>, and sends the list. The friends are a set, so the order of the
  list sent is not fixed; the frame carries the set.\<close>

definition get_public_key :: "state \<Rightarrow> code \<Rightarrow> string option" where
  "get_public_key s uid = (case user_data s uid of None \<Rightarrow> None | Some r \<Rightarrow> public_key r)"

definition friend_entry :: "state \<Rightarrow> code \<Rightarrow> friend_info" where
  "friend_entry s friend_id =
     (friend_id, get_public_key s friend_id, map_option last_seen (user_data s friend_id),
      users s friend_id \<noteq> None)"

definition get_friends :: "state \<Rightarrow> code \<Rightarrow> state \<times> frames" where
  "get_friends s user_id =
     (let s1 = s\<lparr>friends := setdefault (friends s) user_id {}\<rparr>
      in (s1, ws_send s1 user_id (FriendsList (friend_entry s1 ` friends_of s1 user_id))))"

subsection \<open>Friend requests\<close>

text \<open>\<^verbatim>\<open>send_friend_request\<close>: the target is upper-cased and stripped, then checked in
  the order of the source: format, presence in \<^verbatim>\<open>self.users\<close>, self-request,
  existing friendship, existing pending request from this sender.\<close>

definition send_friend_request ::
    "state \<Rightarrow> timestamp \<Rightarrow> code \<Rightarrow> string option \<Rightarrow> state \<times> frames" where
  "send_friend_request s now sender_id data_target =
     (let target_id = strip (upper (get_str data_target)) in
      if target_id = [] \<or> length target_id \<noteq> 6 then
        (s, send_error s sender_id ''Invalid user ID format'')
      else if users s target_id = None then
        (s, send_error s sender_id ''User ID not found or offline'')
      else if target_id = sender_id then
        (s, send_error s sender_id ''Cannot add yourself as friend'')
      else
        (let s1 = s\<lparr>friends := setdefault (friends s) sender_id {}\<rparr> in
         if target_id \<in> friends_of s1 sender_id then
           (s1, send_error s1 sender_id ''Already friends with this user'')
         else
           (let s2 = s1\<lparr>friend_requests := setdefault (friend_requests s1) target_id []\<rparr>;
                existing_requests =
                  filter (\<lambda>req. req_sender_id req = sender_id) (pending_of s2 target_id)
            in if existing_requests \<noteq> [] then
                 (s2, send_error s2 sender_id ''Friend request already sent'')
               else
                 (let request_data = \<lparr>req_sender_id = sender_id, req_timestamp = now\<rparr>;
                      s3 = s2\<lparr>friend_requests := (friend_requests s2)
                             (target_id \<mapsto> pending_of s2 target_id @ [request_data])\<rparr>
                  in (s3,
                      (if users s3 target_id = None then []
                       else ws_send s3 target_id (FriendRequestReceived sender_id now))
                      @ ws_send s3 sender_id (FriendRequestSent target_id))))))"

text \<open>\<^verbatim>\<open>respond_friend_request\<close>: the sender's requests are filtered out of the
  responder's list first; an accepted request adds each code to the other's set
  (\<^verbatim>\<open>self.friends[a].add(b)\<close> on a \<^verbatim>\<open>defaultdict\<close>: \<open>dd_add\<close>).\<close>

definition dd_add :: "(code \<rightharpoonup> code set) \<Rightarrow> code \<Rightarrow> code \<Rightarrow> (code \<rightharpoonup> code set)" where
  "dd_add m k x = m(k \<mapsto> insert x (case m k of None \<Rightarrow> {} | Some fset \<Rightarrow> fset))"

definition respond_friend_request ::
    "state \<Rightarrow> code \<Rightarrow> string option \<Rightarrow> bool option \<Rightarrow> state \<times> frames" where
  "respond_friend_request s user_id data_sender data_accepted =
     (let sender_id = get_str data_sender; accepted = get_flag data_accepted in
      if sender_id = [] then (s, send_error s user_id ''Sender ID is required'')
      else
        (let original = pending_of s user_id;
             kept = filter (\<lambda>req. req_sender_id req \<noteq> sender_id) original;
             s1 = s\<lparr>friend_requests := (friend_requests s)(user_id \<mapsto> kept)\<rparr>
         in if length kept = length original then
              (s1, send_error s1 user_id ''Friend request not found'')
            else if accepted then
              (let s2 = s1\<lparr>friends :=
                          dd_add (dd_add (friends s1) user_id sender_id) sender_id user_id\<rparr>;
                   out1 = ws_send s2 user_id
                            (FriendAdded sender_id (get_public_key s2 sender_id));
                   out2 = (if users s2 sender_id = None then []
                           else ws_send s2 sender_id
                                  (FriendAdded user_id (get_public_key s2 user_id)));
                   r3 = get_friends s2 user_id;
                   r4 = (if users (fst r3) sender_id = None then (fst r3, [])
                         else get_friends (fst r3) sender_id)
               in (fst r4, out1 @ out2 @ snd r3 @ snd r4))
            else
              (s1, if users s1 sender_id = None then []
                   else ws_send s1 sender_id (FriendRequestRejected user_id))))"

subsection \<open>Messages\<close>

definition send_message ::
    "state \<Rightarrow> timestamp \<Rightarrow> code \<Rightarrow> string option \<Rightarrow> string option \<Rightarrow> state \<times> frames" where
  "send_message s now sender_id data_target data_message =
     (let target_id = get_str data_target; encrypted_message = get_str data_message in
      if target_id = [] then (s, send_error s sender_id ''Target user ID is required'')
      else if encrypted_message = [] then
        (s, send_error s sender_id ''Encrypted message is required'')
      else
        (let s1 = s\<lparr>friends := setdefault (friends s) sender_id {}\<rparr> in
         if target_id \<notin> friends_of s1 sender_id then
           (s1, send_error s1 sender_id ''Not friends with this user'')
         else
           (let conversation_id = get_conversation_id sender_id target_id;
                message_data = \<lparr>msg_sender_id = sender_id, msg_target_id = target_id,
                                msg_encrypted_message = encrypted_message,
                                msg_timestamp = now\<rparr>;
                s2 = s1\<lparr>messages := AList.update conversation_id
                             (conversation s1 conversation_id @ [message_data])
                             (messages s1)\<rparr>;
                notification = MessageReceived sender_id target_id encrypted_message now
            in (s2,
                (if users s2 target_id = None then [] else ws_send s2 target_id notification)
                @ ws_send s2 sender_id notification))))"

definition get_messages :: "state \<Rightarrow> code \<Rightarrow> string option \<Rightarrow> state \<times> frames" where
  "get_messages s user_id data_target =
     (let target_id = get_str data_target in
      if target_id = [] then (s, send_error s user_id ''Target user ID is required'')
      else
        (let s1 = s\<lparr>friends := setdefault (friends s) user_id {}\<rparr> in
         if target_id \<notin> friends_of s1 user_id then
           (s1, send_error s1 user_id ''Not friends with this user'')
         else
           (let msgs = conversation s1 (get_conversation_id user_id target_id)
            in (s1, ws_send s1 user_id (ConversationMessages target_id msgs (length msgs))))))"

subsection \<open>Public keys\<close>

text \<open>
  \<^verbatim>\<open>set_public_key\<close> stores the key in the record of the code and turns the public
  flag on; \<^verbatim>\<open>self.key_status[user_id]\<close> raises when the code has a record and no
  status, after the record is written, and the handler then reports the failure. The
  friends that are connected are notified in the order in which Python walks the set:
  the parameter \<open>walk\<close> lists the friends in that order.
\<close>

definition set_public_key ::
    "state \<Rightarrow> code \<Rightarrow> string option \<Rightarrow> code list \<Rightarrow> state \<times> frames" where
  "set_public_key s user_id data_public_key walk =
     (let key = get_str data_public_key in
      if key = [] then (s, send_error s user_id ''Public key is required'')
      else
        (case user_data s user_id of
           None \<Rightarrow> (s, send_error s user_id ''User not found'')
         | Some r \<Rightarrow>
             (let s1 = s\<lparr>user_data := (user_data s)(user_id \<mapsto> r\<lparr>public_key := Some key\<rparr>)\<rparr>
              in case key_status s1 user_id of
                   None \<Rightarrow>
                     (s1, send_error s1 user_id
                            (''Failed to set public key: '' @ [CHR 0x27] @ user_id @ [CHR 0x27]))
                 | Some st \<Rightarrow>
                     (let st1 = st\<lparr>public_key_loaded := True\<rparr>;
                          s2 = s1\<lparr>key_status := (key_status s1)(user_id \<mapsto> st1)\<rparr>;
                          out1 = ws_send s2 user_id (PublicKeySet st1);
                          out2 = (if friends s2 user_id = None then []
                                  else concat (map (\<lambda>fid.
                                         if users s2 fid = None then []
                                         else ws_send s2 fid (FriendKeyUpdated user_id key))
                                       walk))
                      in (s2, out1 @ out2)))))"

subsection \<open>Connecting and disconnecting\<close>

text \<open>
  \<^verbatim>\<open>generate_user_id\<close> draws six characters at random until the code drawn is not a
  key of \<^verbatim>\<open>self.users\<close>. The draws are a parameter: the list of the codes that
  \<^verbatim>\<open>secrets.choice\<close> produces, in order. The result is \<open>None\<close> when every code of
  the list is taken, where the source would draw again.
\<close>

fun generate_user_id :: "state \<Rightarrow> code list \<Rightarrow> code option" where
  "generate_user_id s [] = None"
| "generate_user_id s (user_id # draws) =
     (if users s user_id = None then Some user_id else generate_user_id s draws)"

text \<open>The head of \<^verbatim>\<open>handle_client\<close>: the new code is bound to the websocket, gets a
  fresh record and a fresh key status, and is sent to the client with its friends
  list.\<close>

definition handle_connect ::
    "state \<Rightarrow> timestamp \<Rightarrow> ws \<Rightarrow> code list \<Rightarrow> (code \<times> state \<times> frames) option" where
  "handle_connect s now w draws =
     (case generate_user_id s draws of
        None \<Rightarrow> None
      | Some user_id \<Rightarrow>
          (let s1 = s\<lparr>users := (users s)(user_id \<mapsto> w),
                      user_data := (user_data s)(user_id \<mapsto>
                         \<lparr>websocket = Some w, public_key = None, last_seen = now\<rparr>),
                      key_status := (key_status s)(user_id \<mapsto>
                         \<lparr>private_key_loaded = False, public_key_loaded = False\<rparr>)\<rparr>;
               r = get_friends s1 user_id
           in Some (user_id, fst r, (w, UserIdAssigned user_id) # snd r)))"

definition cleanup_user :: "state \<Rightarrow> timestamp \<Rightarrow> code \<Rightarrow> state" where
  "cleanup_user s now user_id =
     s\<lparr>users := (users s)(user_id := None),
       user_data := (case user_data s user_id of
                       None \<Rightarrow> user_data s
                     | Some r \<Rightarrow> (user_data s)(user_id \<mapsto> r\<lparr>last_seen := now\<rparr>))\<rparr>"

text \<open>\<^verbatim>\<open>load_state\<close> on a snapshot that parses: the two JSON objects of the file are
  association lists. Every code with a saved public key gets a record with no
  websocket; the friends map replaces \<^verbatim>\<open>self.friends\<close>. No code is bound to a
  connection by loading.\<close>

definition load_state ::
    "state \<Rightarrow> timestamp \<Rightarrow> (code \<times> string) list \<Rightarrow> (code \<times> code list) list \<Rightarrow> state" where
  "load_state s now user_public_keys friends_map =
     (let s1 = foldl (\<lambda>st (uid, pub).
                  st\<lparr>user_data := (user_data st)(uid \<mapsto>
                        \<lparr>websocket = None, public_key = Some pub, last_seen = now\<rparr>),
                     key_status := (key_status st)(uid \<mapsto>
                        \<lparr>private_key_loaded = False, public_key_loaded = (pub \<noteq> [])\<rparr>)\<rparr>)
                s user_public_keys
      in s1\<lparr>friends := map_of (map (\<lambda>(uid, lst). (uid, set lst)) friends_map)\<rparr>)"

subsection \<open>Resuming a session\<close>

text \<open>
  The branch of \<^verbatim>\<open>resume_session\<close> for a requested code that has a record
  (\<^verbatim>\<open>requested_id in self.user_data\<close>): the websocket is rebound, the key status of
  the current code is carried over only when the requested code has none, and every
  entry of the current code is deleted, its friends set included.
\<close>

definition rebind_session :: "state \<Rightarrow> timestamp \<Rightarrow> code \<Rightarrow> code \<Rightarrow> ws \<Rightarrow> state" where
  "rebind_session s now current_id requested_id w =
     (let ud1 = (case user_data s requested_id of
                   None \<Rightarrow> user_data s
                 | Some r \<Rightarrow> (user_data s)(requested_id \<mapsto>
                               r\<lparr>websocket := Some w, last_seen := now\<rparr>));
          ks1 = (case key_status s current_id of
                   None \<Rightarrow> key_status s
                 | Some st \<Rightarrow> (if key_status s requested_id = None
                               then (key_status s)(requested_id \<mapsto> st)
                               else key_status s))
      in s\<lparr>users := ((users s)(requested_id \<mapsto> w))(current_id := None),
           user_data := ud1(current_id := None),
           key_status := ks1(current_id := None),
           friends := (friends s)(current_id := None),
           friend_requests := (friend_requests s)(current_id := None)\<rparr>)"

text \<open>
  The migration of the conversations in the other branch. The first loop walks the keys
  in order and collects \<^verbatim>\<open>(conv_id, new_conv)\<close> for every key that has the current
  code among its parts; \<^verbatim>\<open>parts[1]\<close> raises on a key with a single part, and the
  \<^verbatim>\<open>except\<close> around both loops then skips the migration: \<open>None\<close>. The second loop
  appends each old log to the log under the new key and deletes the old key.
\<close>

fun collect_moves :: "code \<Rightarrow> code \<Rightarrow> string list \<Rightarrow> (string \<times> string) list option" where
  "collect_moves current_id requested_id [] = Some []"
| "collect_moves current_id requested_id (conv_id # keys) =
     (let parts = str_split CHR ''_'' conv_id in
      if current_id \<in> set parts then
        (case parts of
           p0 # p1 # rest \<Rightarrow>
             (let other = (if p1 = current_id then p0 else p1);
                  new_conv = get_conversation_id requested_id other
              in map_option ((#) (conv_id, new_conv))
                   (collect_moves current_id requested_id keys))
         | _ \<Rightarrow> None)
      else collect_moves current_id requested_id keys)"

definition move_log ::
    "(string \<times> message list) list \<Rightarrow> string \<times> string \<Rightarrow> (string \<times> message list) list" where
  "move_log m mv =
     (case mv of (old_c, new_c) \<Rightarrow>
        (let m1 = (if map_of m new_c = None then AList.update new_c [] m else m);
             dst = (case map_of m1 new_c of None \<Rightarrow> [] | Some log \<Rightarrow> log);
             src = (case map_of m1 old_c of None \<Rightarrow> [] | Some log \<Rightarrow> log)
         in AList.delete old_c (AList.update new_c (dst @ src) m1)))"

definition migrate_messages ::
    "code \<Rightarrow> code \<Rightarrow> (string \<times> message list) list \<Rightarrow> (string \<times> message list) list" where
  "migrate_messages current_id requested_id m =
     (case collect_moves current_id requested_id (map fst m) of
        None \<Rightarrow> m
      | Some to_move \<Rightarrow> foldl move_log m to_move)"

text \<open>
  The branch for a requested code with no record: the current code is renamed. Its
  record and key status move; its friends are merged into the set of the requested
  code; every set of the friends map that holds the current code gets the requested
  code instead (each set on its own, so the order of the walk does not matter); the
  pending list of the current code moves; the conversations are migrated; then every
  entry of the current code is deleted.
\<close>

definition replace_member :: "code \<Rightarrow> code \<Rightarrow> code set \<Rightarrow> code set" where
  "replace_member current_id requested_id fset =
     (if current_id \<in> fset then insert requested_id (fset - {current_id}) else fset)"

definition adopt_session :: "state \<Rightarrow> timestamp \<Rightarrow> code \<Rightarrow> code \<Rightarrow> ws \<Rightarrow> state" where
  "adopt_session s now current_id requested_id w =
     (let r0 = (case user_data s current_id of
                  None \<Rightarrow> \<lparr>websocket = Some w, public_key = None, last_seen = now\<rparr>
                | Some r \<Rightarrow> r);
          ud1 = (user_data s)(requested_id \<mapsto> r0\<lparr>websocket := Some w, last_seen := now\<rparr>);
          ks1 = (key_status s)(requested_id \<mapsto>
                   (case key_status s current_id of
                      None \<Rightarrow> \<lparr>private_key_loaded = False, public_key_loaded = False\<rparr>
                    | Some st \<Rightarrow> st));
          current_set = (case friends s current_id of None \<Rightarrow> {} | Some fset \<Rightarrow> fset);
          fr1 = (case friends s requested_id of
                   Some fset \<Rightarrow> (friends s)(requested_id \<mapsto> fset \<union> current_set)
                 | None \<Rightarrow> (if current_set \<noteq> {}
                            then (friends s)(requested_id \<mapsto> current_set)
                            else friends s));
          fr2 = (\<lambda>uid. map_option (replace_member current_id requested_id) (fr1 uid));
          rq1 = (case friend_requests s current_id of
                   None \<Rightarrow> friend_requests s
                 | Some reqs \<Rightarrow> (friend_requests s)(requested_id \<mapsto> reqs))
      in s\<lparr>users := ((users s)(requested_id \<mapsto> w))(current_id := None),
           user_data := ud1(current_id := None),
           key_status := ks1(current_id := None),
           friends := fr2(current_id := None),
           friend_requests := rq1(current_id := None),
           messages := migrate_messages current_id requested_id (messages s)\<rparr>)"

text \<open>\<^verbatim>\<open>resume_session\<close> itself: the requested code is upper-cased and stripped; the
  checks come in the order of the source. When the requested code is the current one
  and is bound, the confirmation is written with \<^verbatim>\<open>.send(...)\<close>, which raises; the
  handler catches the exception and reports it with \<^verbatim>\<open>send_error\<close>. The text of the
  exception is the one Python gives for a missing attribute.\<close>

definition no_send_attribute :: string where
  "no_send_attribute =
     [CHR 0x27] @ ''WebSocketResponse'' @ [CHR 0x27] @ '' object has no attribute ''
     @ [CHR 0x27] @ ''send'' @ [CHR 0x27]"

definition resume_session ::
    "state \<Rightarrow> timestamp \<Rightarrow> code \<Rightarrow> string option \<Rightarrow> state \<times> frames" where
  "resume_session s now current_id data_user_id =
     (let requested_id = strip (upper (get_str data_user_id)) in
      if requested_id = [] \<or> length requested_id \<noteq> 6 then
        (s, send_error s current_id ''Invalid user ID format for resume'')
      else if requested_id = current_id then
        (s, if users s current_id = None then []
            else send_error s current_id (''Failed to resume session: '' @ no_send_attribute))
      else if users s requested_id \<noteq> None then
        (s, send_error s current_id ''Requested ID is currently in use'')
      else
        (case users s current_id of
           None \<Rightarrow>
             (case user_data s requested_id of
                Some r \<Rightarrow>
                  (s, case (case users s requested_id of None \<Rightarrow> websocket r
                            | Some w \<Rightarrow> Some w) of
                        None \<Rightarrow> []
                      | Some w \<Rightarrow> [(w, UserIdAssigned requested_id)])
              | None \<Rightarrow> (s, send_error s current_id ''Current session not found''))
         | Some w \<Rightarrow>
             (let s1 = (if user_data s requested_id \<noteq> None
                        then rebind_session s now current_id requested_id w
                        else adopt_session s now current_id requested_id w);
                  r = get_friends s1 requested_id
              in (fst r, (w, UserIdAssigned requested_id) # snd r))))"

subsection \<open>The loop of a connection\<close>

text \<open>
  After the connect, \<^verbatim>\<open>handle_client\<close> reads frames until the websocket closes. For
  a frame that parses it stamps \<^verbatim>\<open>last_seen\<close> in the record of \<^verbatim>\<open>user_id\<close>, if
  there is one, and calls the handler of the action with \<^verbatim>\<open>user_id\<close>. That variable
  is the code drawn at connect: no handler changes it, \<^verbatim>\<open>resume_session\<close> included.
  When the loop ends, \<^verbatim>\<open>cleanup_user\<close> runs on the same code.
\<close>

definition touch_last_seen :: "state \<Rightarrow> timestamp \<Rightarrow> code \<Rightarrow> state" where
  "touch_last_seen s now user_id =
     (case user_data s user_id of
        None \<Rightarrow> s
      | Some r \<Rightarrow> s\<lparr>user_data := (user_data s)(user_id \<mapsto> r\<lparr>last_seen := now\<rparr>)\<rparr>)"

datatype action =
    Ping
  | SetPublicKey "string option"
  | SetKeyStatus "bool option" "bool option"
  | ResumeSession "string option"
  | SendFriendRequest "string option"
  | RespondFriendRequest "string option" "bool option"
  | SendMessage "string option" "string option"
  | GetFriends
  | GetMessages "string option"
  | GetKeyStatus
  | UnknownAction string

definition handle_action ::
    "state \<Rightarrow> timestamp \<Rightarrow> code \<Rightarrow> code list \<Rightarrow> action \<Rightarrow> state \<times> frames" where
  "handle_action s now user_id walk a =
     (let s1 = touch_last_seen s now user_id in
      case a of
        Ping \<Rightarrow> handle_ping s1 user_id
      | SetPublicKey data_public_key \<Rightarrow> set_public_key s1 user_id data_public_key walk
      | SetKeyStatus data_private data_public \<Rightarrow>
          set_key_status s1 user_id data_private data_public
      | ResumeSession data_user_id \<Rightarrow> resume_session s1 now user_id data_user_id
      | SendFriendRequest data_target \<Rightarrow> send_friend_request s1 now user_id data_target
      | RespondFriendRequest data_sender data_accepted \<Rightarrow>
          respond_friend_request s1 user_id data_sender data_accepted
      | SendMessage data_target data_message \<Rightarrow>
          send_message s1 now user_id data_target data_message
      | GetFriends \<Rightarrow> get_friends s1 user_id
      | GetMessages data_target \<Rightarrow> get_messages s1 user_id data_target
      | GetKeyStatus \<Rightarrow> get_key_status s1 user_id
      | UnknownAction name \<Rightarrow> (s1, send_error s1 user_id (''Unknown action: '' @ name)))"

text \<open>
  The states the server can be in, with the open connections: the pairs of a websocket
  and the code its loop passes to the handlers. The server starts with empty
  dictionaries (no snapshot on disk). A connection opens on a new websocket with draws
  of six characters of the alphabet; an open connection sends an action, or closes.
\<close>

definition generated_code :: "code \<Rightarrow> bool" where
  "generated_code c =
     (length c = 6 \<and> list_all (\<lambda>x. x \<in> set ''ABCDEFGHIJKLMNOPQRSTUVWXYZ0123456789'') c)"

inductive reachable :: "state \<Rightarrow> (ws \<times> code) set \<Rightarrow> bool" where
  reachable_init: "reachable init_state {}"
| reachable_connect:
    "reachable s conns \<Longrightarrow> w \<notin> fst ` conns \<Longrightarrow> list_all generated_code draws \<Longrightarrow>
     handle_connect s now w draws = Some (user_id, s', out) \<Longrightarrow>
     reachable s' (insert (w, user_id) conns)"
| reachable_action:
    "reachable s conns \<Longrightarrow> (w, user_id) \<in> conns \<Longrightarrow>
     distinct walk \<Longrightarrow> set walk = friends_of (touch_last_seen s now user_id) user_id \<Longrightarrow>
     handle_action s now user_id walk a = (s', out) \<Longrightarrow>
     reachable s' conns"
| reachable_disconnect:
    "reachable s conns \<Longrightarrow> (w, user_id) \<in> conns \<Longrightarrow>
     reachable (cleanup_user s now user_id) (conns - {(w, user_id)})"

subsection \<open>Predicates of the claims\<close>

text \<open>The friend edge between two codes, read on both sides; and the requests that pass
  the first three checks of \<^verbatim>\<open>send_friend_request\<close>.\<close>

definition friend_edge :: "state \<Rightarrow> code \<Rightarrow> code \<Rightarrow> bool" where
  "friend_edge s a b = (b \<in> friends_of s a \<and> a \<in> friends_of s b)"

definition sendable :: "state \<Rightarrow> code \<Rightarrow> code \<Rightarrow> bool" where
  "sendable s sender_id target_id =
     (length target_id = 6 \<and> users s target_id \<noteq> None \<and> target_id \<noteq> sender_id)"

text \<open>The two invariants of the friends map: it is symmetric, and no code is its own
  friend.\<close>

definition symmetric_friends :: "state \<Rightarrow> bool" where
  "symmetric_friends s = (\<forall>a b. (b \<in> friends_of s a) = (a \<in> friends_of s b))"

definition no_self_friend :: "state \<Rightarrow> bool" where
  "no_self_friend s = (\<forall>u. u \<notin> friends_of s u)"

text \<open>At most one pending request for each ordered pair of a sender and a target.\<close>

definition pending_distinct :: "state \<Rightarrow> bool" where
  "pending_distinct s = (\<forall>t. distinct (map req_sender_id (pending_of s t)))"

subsection \<open>A session of three clients\<close>

text \<open>
  The states of one run of the server, written out. Three clients connect at time 0 on
  the websockets 1, 2 and 3 and draw the codes \<open>AAAAAA\<close>, \<open>BBBBBB\<close> and \<open>CCCCCC\<close>;
  the third disconnects at time 5; at time 6 the first asks the second to be its friend
  (\<open>s_pending\<close>); at time 7 the second accepts (\<open>s_friends\<close>). At time 8 the first
  resumes the code of the third (\<open>s_rebound\<close>), and at time 9 the second resumes the
  code the first has left (\<open>s_self_friend\<close>). On another branch the first, its request
  still pending, resumes the unused code \<open>DDDDDD\<close> at time 8 (\<open>s_adopted\<close>). On a
  third branch the two friends exchange a message at time 8 (\<open>s_chat\<close>) and the first
  then resumes \<open>DDDDDD\<close> at time 9 (\<open>s_chat_adopted\<close>). After \<open>s_adopted\<close> the
  second client accepts, at time 9, the request that is still pending
  (\<open>s_late_friends\<close>).
\<close>

definition fresh_rec :: "ws \<Rightarrow> timestamp \<Rightarrow> user_rec" where
  "fresh_rec w t = \<lparr>websocket = Some w, public_key = None, last_seen = t\<rparr>"

definition no_keys :: key_flags where
  "no_keys = \<lparr>private_key_loaded = False, public_key_loaded = False\<rparr>"

definition s_a :: state where
  "s_a = \<lparr>users = [''AAAAAA'' \<mapsto> 1],
          user_data = [''AAAAAA'' \<mapsto> fresh_rec 1 0],
          friends = [''AAAAAA'' \<mapsto> {}],
          friend_requests = Map.empty, messages = [],
          key_status = [''AAAAAA'' \<mapsto> no_keys]\<rparr>"

definition s_ab :: state where
  "s_ab = \<lparr>users = [''AAAAAA'' \<mapsto> 1, ''BBBBBB'' \<mapsto> 2],
           user_data = [''AAAAAA'' \<mapsto> fresh_rec 1 0, ''BBBBBB'' \<mapsto> fresh_rec 2 0],
           friends = [''AAAAAA'' \<mapsto> {}, ''BBBBBB'' \<mapsto> {}],
           friend_requests = Map.empty, messages = [],
           key_status = [''AAAAAA'' \<mapsto> no_keys, ''BBBBBB'' \<mapsto> no_keys]\<rparr>"

definition s_abc :: state where
  "s_abc = \<lparr>users = [''AAAAAA'' \<mapsto> 1, ''BBBBBB'' \<mapsto> 2, ''CCCCCC'' \<mapsto> 3],
            user_data = [''AAAAAA'' \<mapsto> fresh_rec 1 0, ''BBBBBB'' \<mapsto> fresh_rec 2 0,
                         ''CCCCCC'' \<mapsto> fresh_rec 3 0],
            friends = [''AAAAAA'' \<mapsto> {}, ''BBBBBB'' \<mapsto> {}, ''CCCCCC'' \<mapsto> {}],
            friend_requests = Map.empty, messages = [],
            key_status = [''AAAAAA'' \<mapsto> no_keys, ''BBBBBB'' \<mapsto> no_keys,
                          ''CCCCCC'' \<mapsto> no_keys]\<rparr>"

definition s_offline :: state where
  "s_offline = s_abc\<lparr>users := [''AAAAAA'' \<mapsto> 1, ''BBBBBB'' \<mapsto> 2],
                 user_data := [''AAAAAA'' \<mapsto> fresh_rec 1 0, ''BBBBBB'' \<mapsto> fresh_rec 2 0,
                               ''CCCCCC'' \<mapsto> fresh_rec 3 5]\<rparr>"

definition s_pending :: state where
  "s_pending = s_offline\<lparr>
                 user_data := [''AAAAAA'' \<mapsto> fresh_rec 1 6, ''BBBBBB'' \<mapsto> fresh_rec 2 0,
                               ''CCCCCC'' \<mapsto> fresh_rec 3 5],
                 friend_requests :=
                   [''BBBBBB'' \<mapsto> [\<lparr>req_sender_id = ''AAAAAA'', req_timestamp = 6\<rparr>]]\<rparr>"

definition s_friends :: state where
  "s_friends = s_offline\<lparr>
                 user_data := [''AAAAAA'' \<mapsto> fresh_rec 1 6, ''BBBBBB'' \<mapsto> fresh_rec 2 7,
                               ''CCCCCC'' \<mapsto> fresh_rec 3 5],
                 friends := [''AAAAAA'' \<mapsto> {''BBBBBB''}, ''BBBBBB'' \<mapsto> {''AAAAAA''},
                             ''CCCCCC'' \<mapsto> {}],
                 friend_requests := [''BBBBBB'' \<mapsto> []]\<rparr>"

definition s_rebound :: state where
  "s_rebound = \<lparr>users = [''BBBBBB'' \<mapsto> 2, ''CCCCCC'' \<mapsto> 1],
                user_data = [''BBBBBB'' \<mapsto> fresh_rec 2 7, ''CCCCCC'' \<mapsto> fresh_rec 1 8],
                friends = [''BBBBBB'' \<mapsto> {''AAAAAA''}, ''CCCCCC'' \<mapsto> {}],
                friend_requests = [''BBBBBB'' \<mapsto> []], messages = [],
                key_status = [''BBBBBB'' \<mapsto> no_keys, ''CCCCCC'' \<mapsto> no_keys]\<rparr>"

definition s_self_friend :: state where
  "s_self_friend = \<lparr>users = [''CCCCCC'' \<mapsto> 1, ''AAAAAA'' \<mapsto> 2],
                user_data = [''CCCCCC'' \<mapsto> fresh_rec 1 8, ''AAAAAA'' \<mapsto> fresh_rec 2 9],
                friends = [''CCCCCC'' \<mapsto> {}, ''AAAAAA'' \<mapsto> {''AAAAAA''}],
                friend_requests = [''AAAAAA'' \<mapsto> []], messages = [],
                key_status = [''CCCCCC'' \<mapsto> no_keys, ''AAAAAA'' \<mapsto> no_keys]\<rparr>"

definition s_adopted :: state where
  "s_adopted = \<lparr>users = [''BBBBBB'' \<mapsto> 2, ''DDDDDD'' \<mapsto> 1],
                user_data = [''BBBBBB'' \<mapsto> fresh_rec 2 0, ''CCCCCC'' \<mapsto> fresh_rec 3 5,
                             ''DDDDDD'' \<mapsto> fresh_rec 1 8],
                friends = [''BBBBBB'' \<mapsto> {}, ''CCCCCC'' \<mapsto> {}, ''DDDDDD'' \<mapsto> {}],
                friend_requests =
                  [''BBBBBB'' \<mapsto> [\<lparr>req_sender_id = ''AAAAAA'', req_timestamp = 6\<rparr>]],
                messages = [],
                key_status = [''BBBBBB'' \<mapsto> no_keys, ''CCCCCC'' \<mapsto> no_keys,
                              ''DDDDDD'' \<mapsto> no_keys]\<rparr>"

definition s_late_friends :: state where
  "s_late_friends = s_adopted\<lparr>
                user_data := [''BBBBBB'' \<mapsto> fresh_rec 2 9, ''CCCCCC'' \<mapsto> fresh_rec 3 5,
                              ''DDDDDD'' \<mapsto> fresh_rec 1 8],
                friends := [''AAAAAA'' \<mapsto> {''BBBBBB''}, ''BBBBBB'' \<mapsto> {''AAAAAA''},
                            ''CCCCCC'' \<mapsto> {}, ''DDDDDD'' \<mapsto> {}],
                friend_requests := [''BBBBBB'' \<mapsto> []]\<rparr>"

definition ct_message :: message where
  "ct_message = \<lparr>msg_sender_id = ''AAAAAA'', msg_target_id = ''BBBBBB'',
                  msg_encrypted_message = ''ct'', msg_timestamp = 8\<rparr>"

definition s_chat :: state where
  "s_chat = s_friends\<lparr>
              user_data := [''AAAAAA'' \<mapsto> fresh_rec 1 8, ''BBBBBB'' \<mapsto> fresh_rec 2 7,
                            ''CCCCCC'' \<mapsto> fresh_rec 3 5],
              messages := [(''AAAAAA_BBBBBB'', [ct_message])]\<rparr>"

definition s_chat_adopted :: state where
  "s_chat_adopted = \<lparr>users = [''BBBBBB'' \<mapsto> 2, ''DDDDDD'' \<mapsto> 1],
                user_data = [''BBBBBB'' \<mapsto> fresh_rec 2 7, ''CCCCCC'' \<mapsto> fresh_rec 3 5,
                             ''DDDDDD'' \<mapsto> fresh_rec 1 9],
                friends = [''BBBBBB'' \<mapsto> {''DDDDDD''}, ''CCCCCC'' \<mapsto> {},
                           ''DDDDDD'' \<mapsto> {''BBBBBB''}],
                friend_requests = [''BBBBBB'' \<mapsto> []],
                messages = [(''BBBBBB_DDDDDD'', [ct_message])],
                key_status = [''BBBBBB'' \<mapsto> no_keys, ''CCCCCC'' \<mapsto> no_keys,
                              ''DDDDDD'' \<mapsto> no_keys]\<rparr>"

text \<open>The connections that are open in these states, with the codes they drew.\<close>

definition conns_ab :: "(ws \<times> code) set" where
  "conns_ab = {(1, ''AAAAAA''), (2, ''BBBBBB'')}"

text \<open>A server started on a snapshot that holds the public key of \<open>ABC123\<close> and the
  friendship of \<open>ABC123\<close> and \<open>QWE456\<close>.\<close>

definition s_loaded :: state where
  "s_loaded = load_state init_state 0 [(''ABC123'', ''PK'')]
                [(''ABC123'', [''QWE456'']), (''QWE456'', [''ABC123''])]"

section \<open>Key status reports\<close>

text \<open>
  Claim C8. \<^verbatim>\<open>set_key_status\<close> on a code that has a status entry stores the
  reported private flag whatever it is, turns the public flag on when the report is true
  and keeps the stored public flag when the report is false (so a stored true survives a
  false report), changes nothing else, and sends the updated status to the connection
  bound to the code.
\<close>

theorem set_key_status_known:
  assumes "key_status s user_id = Some st"
  shows "set_key_status s user_id (Some private_loaded) (Some public_loaded) =
           (s\<lparr>key_status := (key_status s)(user_id \<mapsto>
                \<lparr>private_key_loaded = private_loaded,
                 public_key_loaded = (public_loaded \<or> public_key_loaded st)\<rparr>)\<rparr>,
            ws_send s user_id (KeyStatusUpdated
                \<lparr>private_key_loaded = private_loaded,
                 public_key_loaded = (public_loaded \<or> public_key_loaded st)\<rparr>))"
  using assms
  by (cases st)
     (auto simp add: set_key_status_def get_flag_def ws_send_def Let_def split: option.splits)

theorem set_key_status_known_witness:
  "set_key_status
      (init_state\<lparr>users := [''ABC123'' \<mapsto> 7],
         key_status := [''ABC123'' \<mapsto> \<lparr>private_key_loaded = True, public_key_loaded = True\<rparr>]\<rparr>)
      ''ABC123'' (Some False) (Some False)
   = (init_state\<lparr>users := [''ABC123'' \<mapsto> 7],
         key_status := [''ABC123'' \<mapsto> \<lparr>private_key_loaded = False, public_key_loaded = True\<rparr>]\<rparr>,
      [(7, KeyStatusUpdated \<lparr>private_key_loaded = False, public_key_loaded = True\<rparr>)])"
  using set_key_status_known [of
      "init_state\<lparr>users := [''ABC123'' \<mapsto> 7],
         key_status := [''ABC123'' \<mapsto> \<lparr>private_key_loaded = True, public_key_loaded = True\<rparr>]\<rparr>"
      "''ABC123''" "\<lparr>private_key_loaded = True, public_key_loaded = True\<rparr>" False False]
  by (simp add: ws_send_def)

text \<open>
  Claim C10. A field missing from a \<^verbatim>\<open>set_key_status\<close> request reads as false:
  without \<^verbatim>\<open>private_key_loaded\<close> the stored private flag of a known code becomes
  false whatever it was, and without \<^verbatim>\<open>public_key_loaded\<close> the stored public flag
  stays what it was.
\<close>

theorem set_key_status_missing_field:
  assumes "key_status s user_id = Some st"
  shows "map_option private_key_loaded
           (key_status (fst (set_key_status s user_id None data_public)) user_id) = Some False
       \<and> map_option public_key_loaded
           (key_status (fst (set_key_status s user_id data_private None)) user_id)
         = Some (public_key_loaded st)
       \<and> set_key_status s user_id None data_public
         = set_key_status s user_id (Some False) data_public
       \<and> set_key_status s user_id data_private None
         = set_key_status s user_id data_private (Some False)"
  using assms
  by (simp add: set_key_status_def get_flag_def Let_def)

theorem set_key_status_missing_field_witness:
  "map_option private_key_loaded
     (key_status (fst (set_key_status
        (init_state\<lparr>key_status :=
           [''ABC123'' \<mapsto> \<lparr>private_key_loaded = True, public_key_loaded = True\<rparr>]\<rparr>)
        ''ABC123'' None (Some True))) ''ABC123'') = Some False
   \<and> map_option public_key_loaded
     (key_status (fst (set_key_status
        (init_state\<lparr>key_status :=
           [''ABC123'' \<mapsto> \<lparr>private_key_loaded = True, public_key_loaded = True\<rparr>]\<rparr>)
        ''ABC123'' (Some True) None)) ''ABC123'') = Some True"
  using set_key_status_missing_field [of
      "init_state\<lparr>key_status :=
         [''ABC123'' \<mapsto> \<lparr>private_key_loaded = True, public_key_loaded = True\<rparr>]\<rparr>"
      "''ABC123''" "\<lparr>private_key_loaded = True, public_key_loaded = True\<rparr>"
      "Some True" "Some True"]
  by (simp add: set_key_status_def get_flag_def init_state_def)

section \<open>The session, step by step\<close>

lemmas session_defs = s_a_def s_ab_def s_abc_def s_offline_def s_pending_def s_friends_def
  s_rebound_def s_self_friend_def s_adopted_def s_chat_def s_chat_adopted_def
  s_late_friends_def
  ct_message_def fresh_rec_def no_keys_def

lemmas helper_defs = get_friends_def setdefault_def ws_send_def send_error_def friends_of_def
  pending_of_def get_public_key_def friend_entry_def get_str_def get_flag_def dd_add_def
  Let_def

lemma strip_upper_AAAAAA: "strip (upper ''AAAAAA'') = ''AAAAAA''"
  by code_simp

lemma strip_upper_BBBBBB: "strip (upper ''BBBBBB'') = ''BBBBBB''"
  by code_simp

lemma strip_upper_CCCCCC: "strip (upper ''CCCCCC'') = ''CCCCCC''"
  by code_simp

lemma strip_upper_DDDDDD: "strip (upper ''DDDDDD'') = ''DDDDDD''"
  by code_simp

lemma strip_upper_aaaaaa: "strip (upper ''aaaaaa'') = ''AAAAAA''"
  by code_simp

lemma strip_upper_bbbbbb: "strip (upper ''bbbbbb'') = ''BBBBBB''"
  by code_simp

lemma upper_aaaaaa: "upper ''aaaaaa'' = ''AAAAAA''"
  by code_simp

lemma upper_bbbbbb: "upper ''bbbbbb'' = ''BBBBBB''"
  by code_simp

lemma connect_a:
  "handle_connect init_state 0 1 [''AAAAAA'']
     = Some (''AAAAAA'', s_a, [(1, UserIdAssigned ''AAAAAA''), (1, FriendsList {})])"
  by (simp add: handle_connect_def init_state_def session_defs helper_defs)

lemma connect_b:
  "handle_connect s_a 0 2 [''BBBBBB'']
     = Some (''BBBBBB'', s_ab, [(2, UserIdAssigned ''BBBBBB''), (2, FriendsList {})])"
  by (simp add: handle_connect_def session_defs helper_defs)

lemma connect_c:
  "handle_connect s_ab 0 3 [''CCCCCC'']
     = Some (''CCCCCC'', s_abc, [(3, UserIdAssigned ''CCCCCC''), (3, FriendsList {})])"
  by (simp add: handle_connect_def session_defs helper_defs)

lemma disconnect_c: "cleanup_user s_abc 5 ''CCCCCC'' = s_offline"
  by (simp add: cleanup_user_def session_defs helper_defs fun_eq_iff)

lemma a_requests_b:
  "handle_action s_offline 6 ''AAAAAA'' [] (SendFriendRequest (Some ''BBBBBB''))
     = (s_pending, [(2, FriendRequestReceived ''AAAAAA'' 6), (1, FriendRequestSent ''BBBBBB'')])"
  by (simp add: handle_action_def touch_last_seen_def send_friend_request_def
        strip_upper_BBBBBB session_defs helper_defs fun_eq_iff)

lemma b_accepts_a:
  "handle_action s_pending 7 ''BBBBBB'' [] (RespondFriendRequest (Some ''AAAAAA'') (Some True))
     = (s_friends, [(2, FriendAdded ''AAAAAA'' None), (1, FriendAdded ''BBBBBB'' None),
                    (2, FriendsList {(''AAAAAA'', None, Some 6, True)}),
                    (1, FriendsList {(''BBBBBB'', None, Some 7, True)})])"
  by (simp add: handle_action_def touch_last_seen_def respond_friend_request_def
        session_defs helper_defs fun_eq_iff)

lemma a_resumes_c:
  "handle_action s_friends 8 ''AAAAAA'' [''BBBBBB''] (ResumeSession (Some ''CCCCCC''))
     = (s_rebound, [(1, UserIdAssigned ''CCCCCC''), (1, FriendsList {})])"
  by (simp add: handle_action_def touch_last_seen_def resume_session_def rebind_session_def
        strip_upper_CCCCCC session_defs helper_defs fun_eq_iff)

lemma b_resumes_a:
  "handle_action s_rebound 9 ''BBBBBB'' [''AAAAAA''] (ResumeSession (Some ''AAAAAA''))
     = (s_self_friend, [(2, UserIdAssigned ''AAAAAA''),
                        (2, FriendsList {(''AAAAAA'', None, Some 9, True)})])"
  by (simp add: handle_action_def touch_last_seen_def resume_session_def adopt_session_def
        replace_member_def migrate_messages_def strip_upper_AAAAAA session_defs helper_defs
        fun_eq_iff)

lemma a_resumes_d:
  "handle_action s_pending 8 ''AAAAAA'' [] (ResumeSession (Some ''DDDDDD''))
     = (s_adopted, [(1, UserIdAssigned ''DDDDDD''), (1, FriendsList {})])"
  by (simp add: handle_action_def touch_last_seen_def resume_session_def adopt_session_def
        replace_member_def migrate_messages_def strip_upper_DDDDDD session_defs helper_defs
        fun_eq_iff)

lemma a_writes_to_b:
  "handle_action s_friends 8 ''AAAAAA'' [''BBBBBB''] (SendMessage (Some ''BBBBBB'') (Some ''ct''))
     = (s_chat, [(2, MessageReceived ''AAAAAA'' ''BBBBBB'' ''ct'' 8),
                 (1, MessageReceived ''AAAAAA'' ''BBBBBB'' ''ct'' 8)])"
  by (simp add: handle_action_def touch_last_seen_def send_message_def
        get_conversation_id_def conversation_def session_defs helper_defs fun_eq_iff)

lemma a_resumes_d_after_chat:
  "handle_action s_chat 9 ''AAAAAA'' [''BBBBBB''] (ResumeSession (Some ''DDDDDD''))
     = (s_chat_adopted, [(1, UserIdAssigned ''DDDDDD''),
                         (1, FriendsList {(''BBBBBB'', None, Some 7, True)})])"
  by (simp add: handle_action_def touch_last_seen_def resume_session_def adopt_session_def
        replace_member_def migrate_messages_def move_log_def get_conversation_id_def
        AList.delete_eq strip_upper_DDDDDD session_defs helper_defs fun_eq_iff)

lemma b_accepts_retired_a:
  "handle_action s_adopted 9 ''BBBBBB'' [] (RespondFriendRequest (Some ''AAAAAA'') (Some True))
     = (s_late_friends, [(2, FriendAdded ''AAAAAA'' None),
                         (2, FriendsList {(''AAAAAA'', None, None, False)})])"
  by (simp add: handle_action_def touch_last_seen_def respond_friend_request_def
        session_defs helper_defs fun_eq_iff)

text \<open>Every state of the session is a state the server can be in.\<close>

lemma generated_code_examples:
  "list_all generated_code [''AAAAAA'']" "list_all generated_code [''BBBBBB'']"
  "list_all generated_code [''CCCCCC'']"
  by (simp_all add: generated_code_def)

lemma reachable_s_offline: "reachable s_offline conns_ab"
proof -
  have "reachable s_a {(1, ''AAAAAA'')}"
    using reachable_connect [OF reachable_init _ generated_code_examples(1) connect_a]
    by simp
  then have "reachable s_ab (insert (2, ''BBBBBB'') {(1, ''AAAAAA'')})"
    by (rule reachable_connect [OF _ _ generated_code_examples(2) connect_b]) simp
  then have "reachable s_abc
      (insert (3, ''CCCCCC'') (insert (2, ''BBBBBB'') {(1, ''AAAAAA'')}))"
    by (rule reachable_connect [OF _ _ generated_code_examples(3) connect_c]) simp
  then have "reachable (cleanup_user s_abc 5 ''CCCCCC'')
      (insert (3, ''CCCCCC'') (insert (2, ''BBBBBB'') {(1, ''AAAAAA'')}) - {(3, ''CCCCCC'')})"
    by (rule reachable_disconnect) simp
  moreover have "insert (3, ''CCCCCC'') (insert (2, ''BBBBBB'') {(1, ''AAAAAA'')})
      - {(3::nat, ''CCCCCC'')} = conns_ab"
    by (auto simp add: conns_ab_def)
  ultimately show ?thesis
    by (simp add: disconnect_c)
qed

lemma reachable_s_pending: "reachable s_pending conns_ab"
  by (rule reachable_action [OF reachable_s_offline _ _ _ a_requests_b, of 1])
     (simp_all add: conns_ab_def touch_last_seen_def session_defs friends_of_def)

lemma reachable_s_friends: "reachable s_friends conns_ab"
  by (rule reachable_action [OF reachable_s_pending _ _ _ b_accepts_a, of 2])
     (simp_all add: conns_ab_def touch_last_seen_def session_defs friends_of_def)

lemma reachable_s_rebound: "reachable s_rebound conns_ab"
  by (rule reachable_action [OF reachable_s_friends _ _ _ a_resumes_c, of 1])
     (simp_all add: conns_ab_def touch_last_seen_def session_defs friends_of_def)

lemma reachable_s_self_friend: "reachable s_self_friend conns_ab"
  by (rule reachable_action [OF reachable_s_rebound _ _ _ b_resumes_a, of 2])
     (simp_all add: conns_ab_def touch_last_seen_def session_defs friends_of_def)

lemma reachable_s_chat_adopted: "reachable s_chat_adopted conns_ab"
proof -
  have "reachable s_chat conns_ab"
    by (rule reachable_action [OF reachable_s_friends _ _ _ a_writes_to_b, of 1])
       (simp_all add: conns_ab_def touch_last_seen_def session_defs friends_of_def)
  then show ?thesis
    by (rule reachable_action [OF _ _ _ _ a_resumes_d_after_chat, of _ 1])
       (simp_all add: conns_ab_def touch_last_seen_def session_defs friends_of_def)
qed

lemma reachable_s_adopted: "reachable s_adopted conns_ab"
  by (rule reachable_action [OF reachable_s_pending _ _ _ a_resumes_d, of 1])
     (simp_all add: conns_ab_def touch_last_seen_def session_defs friends_of_def)

lemma reachable_s_late_friends: "reachable s_late_friends conns_ab"
  by (rule reachable_action [OF reachable_s_adopted _ _ _ b_accepts_retired_a, of 2])
     (simp_all add: conns_ab_def touch_last_seen_def session_defs friends_of_def)

section \<open>Allocation of codes\<close>

text \<open>What the loop of \<^verbatim>\<open>generate_user_id\<close> does guarantee: the code returned is one
  of the draws and is bound to no connection.\<close>

lemma generate_user_id_not_live:
  "generate_user_id s draws = Some user_id \<Longrightarrow> users s user_id = None \<and> user_id \<in> set draws"
  by (induction draws) (auto split: if_splits)

text \<open>
  Claim C1 wants the code allocated at connect to be absent from every known code, the
  codes that only have a persisted record or friends included. The loop tests
  \<^verbatim>\<open>self.users\<close> alone. On the server loaded from the snapshot, where \<open>ABC123\<close> has a
  public key and a friend and no connection, a draw of \<open>ABC123\<close> is returned; the
  connect that follows replaces the record (the public key is lost) and the new client
  owns the friends of the persisted code. The same happens without a restart: in the
  session, \<open>CCCCCC\<close> keeps its record after its client has left, and a draw of
  \<open>CCCCCC\<close> is returned.
\<close>

theorem generate_user_id_returns_persisted_code:
  "generate_user_id s_loaded [''ABC123''] = Some ''ABC123''
   \<and> user_data s_loaded ''ABC123''
       = Some \<lparr>websocket = None, public_key = Some ''PK'', last_seen = 0\<rparr>
   \<and> friends s_loaded ''ABC123'' = Some {''QWE456''}
   \<and> friends s_loaded ''QWE456'' = Some {''ABC123''}
   \<and> map_option (\<lambda>(user_id, s', out). (user_id, user_data s' user_id, friends s' user_id))
         (handle_connect s_loaded 1 7 [''ABC123''])
       = Some (''ABC123'', Some \<lparr>websocket = Some 7, public_key = None, last_seen = 1\<rparr>,
               Some {''QWE456''})
   \<and> reachable s_offline conns_ab
   \<and> user_data s_offline ''CCCCCC'' = Some (fresh_rec 3 5)
   \<and> generate_user_id s_offline [''CCCCCC''] = Some ''CCCCCC''"
proof -
  have loaded: "generate_user_id s_loaded [''ABC123''] = Some ''ABC123''
     \<and> user_data s_loaded ''ABC123''
         = Some \<lparr>websocket = None, public_key = Some ''PK'', last_seen = 0\<rparr>
     \<and> friends s_loaded ''ABC123'' = Some {''QWE456''}
     \<and> friends s_loaded ''QWE456'' = Some {''ABC123''}
     \<and> map_option (\<lambda>(user_id, s', out). (user_id, user_data s' user_id, friends s' user_id))
           (handle_connect s_loaded 1 7 [''ABC123''])
         = Some (''ABC123'', Some \<lparr>websocket = Some 7, public_key = None, last_seen = 1\<rparr>,
                 Some {''QWE456''})"
    by (simp add: s_loaded_def load_state_def init_state_def handle_connect_def helper_defs)
  have offline: "user_data s_offline ''CCCCCC'' = Some (fresh_rec 3 5)
     \<and> generate_user_id s_offline [''CCCCCC''] = Some ''CCCCCC''"
    by (simp add: session_defs)
  from loaded offline reachable_s_offline show ?thesis
    by simp
qed

section \<open>Resuming a code that is in use\<close>

text \<open>
  What the handler does when it is called with a current code that differs from the
  requested one (the field \<^verbatim>\<open>user_id\<close>, upper-cased and stripped), a six-character
  code bound to a connection: it returns the state it was given, unchanged in every
  dictionary, and its only frame is the error "Requested ID is currently in use" (the
  Conflict of the specification), sent with \<^verbatim>\<open>send_error\<close> on the current code:
  to the connection bound to that code, and to nobody when the code has no binding.
\<close>

lemma resume_session_collision:
  assumes "users s requested_id = Some w"
      and "length requested_id = 6"
      and "strip (upper raw) = requested_id"
      and "current_id \<noteq> requested_id"
  shows "resume_session s now current_id (Some raw)
           = (s, send_error s current_id ''Requested ID is currently in use'')
       \<and> (\<forall>wc. users s current_id = Some wc \<longrightarrow>
             snd (resume_session s now current_id (Some raw))
               = [(wc, Error ''Requested ID is currently in use'')])"
  using assms
  by (auto simp add: resume_session_def get_str_def Let_def send_error_def ws_send_def)

lemma resume_session_collision_example:
  "resume_session s_friends 9 ''BBBBBB'' (Some ''aaaaaa'')
     = (s_friends, [(2, Error ''Requested ID is currently in use'')])"
  using resume_session_collision [of s_friends "''AAAAAA''" 1 "''aaaaaa''" "''BBBBBB''" 9]
  by (simp add: strip_upper_aaaaaa session_defs send_error_def ws_send_def)

text \<open>Seen from the loop of the connection, the refused request changes one thing: the
  loop has stamped \<^verbatim>\<open>last_seen\<close> in the record of its code before it called the
  handler, as it does for every action.\<close>

lemma resume_session_collision_in_loop:
  assumes "users s requested_id = Some w"
      and "length requested_id = 6"
      and "strip (upper raw) = requested_id"
      and "current_id \<noteq> requested_id"
  shows "handle_action s now current_id walk (ResumeSession (Some raw))
           = (touch_last_seen s now current_id,
              send_error s current_id ''Requested ID is currently in use'')"
proof -
  have u: "users (touch_last_seen s now current_id) = users s"
    by (simp add: touch_last_seen_def split: option.splits)
  have "resume_session (touch_last_seen s now current_id) now current_id (Some raw)
          = (touch_last_seen s now current_id,
             send_error (touch_last_seen s now current_id) current_id
               ''Requested ID is currently in use'')"
    using assms u
    by (auto simp add: resume_session_def get_str_def Let_def)
  then show ?thesis
    using u by (simp add: handle_action_def send_error_def ws_send_def)
qed

text \<open>
  Claim C2 wants the request of any other connection for a bound code to fail with the
  Conflict error and to leave the whole state as it was. The handler gets the code that
  the loop of the requesting connection drew at connect, and \<^verbatim>\<open>handle_client\<close> never
  updates that variable after a resume. Two states of the session show what follows.

  In \<open>s_adopted\<close> the connection on websocket 1 owns \<open>DDDDDD\<close> and its loop still
  passes \<open>AAAAAA\<close>, which has no binding. It asks for \<open>BBBBBB\<close>, bound to websocket
  2: the state stays as it was, and no frame is sent, since \<^verbatim>\<open>send_error\<close> finds no
  connection for \<open>AAAAAA\<close>. The requester is told nothing.

  In \<open>s_self_friend\<close> the connection on websocket 1 owns \<open>CCCCCC\<close>, its loop still
  passes \<open>AAAAAA\<close>, and \<open>AAAAAA\<close> is now bound to websocket 2. It asks for
  \<open>AAAAAA\<close>: the handler takes the requested code for the current one, the loop
  stamps \<^verbatim>\<open>last_seen\<close> in the record that the other connection owns, and the only
  frame, which is not the Conflict error, goes to websocket 2.
\<close>

theorem resume_collision_not_reported:
  "reachable s_adopted conns_ab
   \<and> (1, ''AAAAAA'') \<in> conns_ab
   \<and> users s_adopted ''DDDDDD'' = Some 1
   \<and> users s_adopted ''BBBBBB'' = Some 2
   \<and> handle_action s_adopted 9 ''AAAAAA'' [] (ResumeSession (Some ''BBBBBB''))
       = (s_adopted, [])
   \<and> reachable s_self_friend conns_ab
   \<and> users s_self_friend ''CCCCCC'' = Some 1
   \<and> users s_self_friend ''AAAAAA'' = Some 2
   \<and> snd (handle_action s_self_friend 10 ''AAAAAA'' [''AAAAAA'']
            (ResumeSession (Some ''AAAAAA'')))
       = [(2, Error (''Failed to resume session: '' @ no_send_attribute))]
   \<and> map_option last_seen (user_data s_self_friend ''AAAAAA'') = Some 9
   \<and> map_option last_seen
         (user_data (fst (handle_action s_self_friend 10 ''AAAAAA'' [''AAAAAA'']
                            (ResumeSession (Some ''AAAAAA'')))) ''AAAAAA'') = Some 10"
proof -
  have stale: "handle_action s_adopted 9 ''AAAAAA'' [] (ResumeSession (Some ''BBBBBB''))
                 = (s_adopted, [])"
    by (simp add: handle_action_def touch_last_seen_def resume_session_def
          strip_upper_BBBBBB session_defs helper_defs)
  have bound: "(1, ''AAAAAA'') \<in> conns_ab
     \<and> users s_adopted ''DDDDDD'' = Some 1
     \<and> users s_adopted ''BBBBBB'' = Some 2
     \<and> users s_self_friend ''CCCCCC'' = Some 1
     \<and> users s_self_friend ''AAAAAA'' = Some 2
     \<and> map_option last_seen (user_data s_self_friend ''AAAAAA'') = Some 9"
    by (simp add: conns_ab_def session_defs)
  have same: "handle_action s_self_friend 10 ''AAAAAA'' [''AAAAAA'']
                (ResumeSession (Some ''AAAAAA''))
      = (touch_last_seen s_self_friend 10 ''AAAAAA'',
         [(2, Error (''Failed to resume session: '' @ no_send_attribute))])"
    by (simp add: handle_action_def touch_last_seen_def resume_session_def
          strip_upper_AAAAAA session_defs helper_defs)
  have stamped: "map_option last_seen
      (user_data (touch_last_seen s_self_friend 10 ''AAAAAA'') ''AAAAAA'') = Some 10"
    by (simp add: touch_last_seen_def session_defs)
  from stale bound same stamped reachable_s_adopted reachable_s_self_friend
  show ?thesis
    by simp
qed

section \<open>Adopting an unused code\<close>

text \<open>
  What the adoption branch does for any state, with the current code \<open>T\<close> different
  from the requested code \<open>R\<close>: \<open>T\<close> leaves the five dictionaries keyed by code and
  every friends set; \<open>R\<close> is bound to the websocket and holds the record and the key
  status of \<open>T\<close>; the friends of \<open>R\<close> are its former friends and those of \<open>T\<close>, and
  every set reads \<open>R\<close> where it read \<open>T\<close>; the requests pending for \<open>T\<close> are pending
  for \<open>R\<close>.
\<close>

lemma adopt_session_retires_current:
  assumes "current_id \<noteq> requested_id"
  shows "users (adopt_session s now current_id requested_id w) current_id = None"
    and "user_data (adopt_session s now current_id requested_id w) current_id = None"
    and "key_status (adopt_session s now current_id requested_id w) current_id = None"
    and "friends (adopt_session s now current_id requested_id w) current_id = None"
    and "friend_requests (adopt_session s now current_id requested_id w) current_id = None"
    and "current_id \<notin> friends_of (adopt_session s now current_id requested_id w) uid"
  using assms
  by (auto simp add: adopt_session_def Let_def friends_of_def replace_member_def
        split: option.splits if_splits)

lemma adopt_session_moves_identity:
  assumes "current_id \<noteq> requested_id"
      and "user_data s current_id = Some r"
      and "key_status s current_id = Some st"
  shows "users (adopt_session s now current_id requested_id w) requested_id = Some w"
    and "user_data (adopt_session s now current_id requested_id w) requested_id
           = Some (r\<lparr>websocket := Some w, last_seen := now\<rparr>)"
    and "key_status (adopt_session s now current_id requested_id w) requested_id = Some st"
    and "pending_of (adopt_session s now current_id requested_id w) requested_id
           = (if friend_requests s current_id = None then pending_of s requested_id
              else pending_of s current_id)"
  using assms
  by (auto simp add: adopt_session_def Let_def pending_of_def split: option.splits)

lemma adopt_session_friends:
  assumes "current_id \<noteq> requested_id"
  shows "friends_of (adopt_session s now current_id requested_id w) requested_id
           = replace_member current_id requested_id
               (friends_of s requested_id \<union> friends_of s current_id)"
    and "uid \<noteq> requested_id \<Longrightarrow> uid \<noteq> current_id \<Longrightarrow>
         friends_of (adopt_session s now current_id requested_id w) uid
           = replace_member current_id requested_id (friends_of s uid)"
  using assms
  by (auto simp add: adopt_session_def Let_def friends_of_def replace_member_def
        split: option.splits if_splits)

text \<open>
  An adoption that leaves nothing behind: in the session \<open>AAAAAA\<close>, with the friend
  \<open>BBBBBB\<close>, a conversation with it and no request of its own pending, adopts
  \<open>DDDDDD\<close>. The two friends sets read \<open>DDDDDD\<close> and \<open>BBBBBB\<close>, the log is under
  the key of \<open>DDDDDD\<close> and \<open>BBBBBB\<close>, and no dictionary has the key \<open>AAAAAA\<close>.
\<close>

lemma adoption_after_chat:
  "fst (handle_action s_chat 9 ''AAAAAA'' [''BBBBBB''] (ResumeSession (Some ''DDDDDD'')))
     = s_chat_adopted
   \<and> friends_of s_chat_adopted ''DDDDDD'' = {''BBBBBB''}
   \<and> friends_of s_chat_adopted ''BBBBBB'' = {''DDDDDD''}
   \<and> conversation s_chat (get_conversation_id ''AAAAAA'' ''BBBBBB'') = [ct_message]
   \<and> conversation s_chat_adopted (get_conversation_id ''DDDDDD'' ''BBBBBB'') = [ct_message]
   \<and> map fst (messages s_chat_adopted) = [''BBBBBB_DDDDDD'']
   \<and> users s_chat_adopted ''AAAAAA'' = None
   \<and> user_data s_chat_adopted ''AAAAAA'' = None
   \<and> key_status s_chat_adopted ''AAAAAA'' = None
   \<and> friends s_chat_adopted ''AAAAAA'' = None
   \<and> friend_requests s_chat_adopted ''AAAAAA'' = None"
  by (simp add: a_resumes_d_after_chat)
     (simp add: session_defs friends_of_def conversation_def get_conversation_id_def)

text \<open>
  Claim C3 wants the retired code to appear nowhere after an adoption, the pending
  requests included. The branch moves the list of the requests addressed to the current
  code; it does not touch the requests the current code has sent. In the session,
  \<open>AAAAAA\<close> has a request pending with \<open>BBBBBB\<close> and adopts the unused code
  \<open>DDDDDD\<close>: the state reached has no binding and no record for \<open>AAAAAA\<close>, which
  is still the sender of the request in the list of \<open>BBBBBB\<close>.
\<close>

theorem adoption_keeps_request_of_retired_code:
  "reachable s_pending conns_ab
   \<and> users s_pending ''AAAAAA'' = Some 1
   \<and> users s_pending ''DDDDDD'' = None
   \<and> user_data s_pending ''DDDDDD'' = None
   \<and> fst (handle_action s_pending 8 ''AAAAAA'' [] (ResumeSession (Some ''DDDDDD''))) = s_adopted
   \<and> reachable s_adopted conns_ab
   \<and> users s_adopted ''AAAAAA'' = None
   \<and> user_data s_adopted ''AAAAAA'' = None
   \<and> users s_adopted ''DDDDDD'' = Some 1
   \<and> pending_of s_adopted ''BBBBBB''
       = [\<lparr>req_sender_id = ''AAAAAA'', req_timestamp = 6\<rparr>]"
proof -
  have "users s_pending ''AAAAAA'' = Some 1
     \<and> users s_pending ''DDDDDD'' = None
     \<and> user_data s_pending ''DDDDDD'' = None
     \<and> users s_adopted ''AAAAAA'' = None
     \<and> user_data s_adopted ''AAAAAA'' = None
     \<and> users s_adopted ''DDDDDD'' = Some 1
     \<and> pending_of s_adopted ''BBBBBB''
         = [\<lparr>req_sender_id = ''AAAAAA'', req_timestamp = 6\<rparr>]"
    by (simp add: session_defs pending_of_def)
  with reachable_s_pending reachable_s_adopted show ?thesis
    by (simp add: a_resumes_d)
qed

text \<open>The request can still be accepted: \<open>BBBBBB\<close> then becomes the friend of the
  retired code, and the client that now owns \<open>DDDDDD\<close> gets no friend.\<close>

lemma accepting_request_of_retired_code:
  "friends_of (fst (respond_friend_request s_adopted ''BBBBBB'' (Some ''AAAAAA'') (Some True)))
       ''BBBBBB'' = {''AAAAAA''}
   \<and> friends_of (fst (respond_friend_request s_adopted ''BBBBBB'' (Some ''AAAAAA'') (Some True)))
       ''DDDDDD'' = {}"
  by (simp add: respond_friend_request_def session_defs helper_defs)

section \<open>Symmetry of the friends map\<close>

text \<open>
  The handlers that change the friends map and keep it symmetric: accepting a request,
  the adoption branch, and the rebinding branch when the current code has no friend.
\<close>

lemma respond_friend_request_symmetric:
  assumes "symmetric_friends s"
  shows "symmetric_friends (fst (respond_friend_request s user_id data_sender data_accepted))"
  using assms
  by (auto simp add: symmetric_friends_def respond_friend_request_def helper_defs
        split: option.splits if_splits)

lemma mem_replace_member:
  "x \<in> replace_member c r S \<longleftrightarrow> (x \<in> S \<and> x \<noteq> c) \<or> (x = r \<and> c \<in> S)"
  by (auto simp add: replace_member_def)

lemma friends_of_adopt_session:
  "current_id \<noteq> requested_id \<Longrightarrow>
   friends_of (adopt_session s now current_id requested_id w) uid
     = (if uid = current_id then {}
        else if uid = requested_id
        then replace_member current_id requested_id
               (friends_of s requested_id \<union> friends_of s current_id)
        else replace_member current_id requested_id (friends_of s uid))"
  by (auto simp add: adopt_session_def Let_def friends_of_def replace_member_def
        split: option.splits if_splits)

lemma adopt_session_symmetric:
  assumes "current_id \<noteq> requested_id" and "symmetric_friends s"
  shows "symmetric_friends (adopt_session s now current_id requested_id w)"
  using assms
  unfolding symmetric_friends_def
  by (auto simp add: friends_of_adopt_session mem_replace_member)

lemma friends_of_rebind_session:
  "friends_of (rebind_session s now current_id requested_id w) uid
     = (if uid = current_id then {} else friends_of s uid)"
  by (simp add: rebind_session_def Let_def friends_of_def)

lemma rebind_session_symmetric:
  assumes "friends_of s current_id = {}" and "symmetric_friends s"
  shows "symmetric_friends (rebind_session s now current_id requested_id w)"
  using assms
  unfolding symmetric_friends_def
  by (auto simp add: friends_of_rebind_session)

text \<open>
  Claim C4 wants the friends map symmetric in every reachable state, the rebinding
  branch of \<^verbatim>\<open>resume_session\<close> included. That branch deletes the friends set of the
  current code ("Temporary empty set can be dropped") without looking at it. In the
  session \<open>AAAAAA\<close> and \<open>BBBBBB\<close> are friends, symmetrically; \<open>AAAAAA\<close> resumes
  \<open>CCCCCC\<close>, which has a record; in the state reached \<open>BBBBBB\<close> lists \<open>AAAAAA\<close>,
  and \<open>AAAAAA\<close> lists nobody.
\<close>

theorem rebind_leaves_one_sided_edge:
  "reachable s_friends conns_ab
   \<and> symmetric_friends s_friends
   \<and> fst (handle_action s_friends 8 ''AAAAAA'' [''BBBBBB''] (ResumeSession (Some ''CCCCCC'')))
       = s_rebound
   \<and> reachable s_rebound conns_ab
   \<and> ''AAAAAA'' \<in> friends_of s_rebound ''BBBBBB''
   \<and> ''BBBBBB'' \<notin> friends_of s_rebound ''AAAAAA''
   \<and> \<not> symmetric_friends s_rebound"
proof -
  have sym: "symmetric_friends s_friends"
    by (auto simp add: symmetric_friends_def session_defs friends_of_def split: if_splits)
  have one: "''AAAAAA'' \<in> friends_of s_rebound ''BBBBBB''"
    by (simp add: session_defs friends_of_def)
  have other: "''BBBBBB'' \<notin> friends_of s_rebound ''AAAAAA''"
    by (simp add: session_defs friends_of_def)
  from one other have "\<not> symmetric_friends s_rebound"
    unfolding symmetric_friends_def by blast
  with sym one other reachable_s_friends reachable_s_rebound show ?thesis
    by (simp add: a_resumes_c)
qed

section \<open>Self-friendship\<close>

text \<open>
  Claim C9 wants no code to be its own friend in any reachable state, the adoption
  branch included. The branch merges the friends of the current code into the set of
  the requested code and then replaces the current code by the requested one in every
  set, the set of the requested code among them. In the session \<open>BBBBBB\<close> lists
  \<open>AAAAAA\<close>, a code with no record and no connection; when \<open>BBBBBB\<close> resumes
  \<open>AAAAAA\<close>, the set of \<open>AAAAAA\<close> becomes \<open>{AAAAAA}\<close>.
\<close>

theorem adopt_makes_code_its_own_friend:
  "reachable s_rebound conns_ab
   \<and> no_self_friend s_rebound
   \<and> fst (handle_action s_rebound 9 ''BBBBBB'' [''AAAAAA''] (ResumeSession (Some ''AAAAAA'')))
       = s_self_friend
   \<and> reachable s_self_friend conns_ab
   \<and> friends_of s_self_friend ''AAAAAA'' = {''AAAAAA''}
   \<and> \<not> no_self_friend s_self_friend"
proof -
  have before: "no_self_friend s_rebound"
    by (auto simp add: no_self_friend_def session_defs friends_of_def split: if_splits)
  have self: "friends_of s_self_friend ''AAAAAA'' = {''AAAAAA''}"
    by (simp add: session_defs friends_of_def)
  then have "\<not> no_self_friend s_self_friend"
    unfolding no_self_friend_def by blast
  with before self reachable_s_rebound reachable_s_self_friend show ?thesis
    by (simp add: b_resumes_a)
qed

section \<open>Sending a message\<close>

lemma get_conversation_id_commute:
  "get_conversation_id user1_id user2_id = get_conversation_id user2_id user1_id"
  by (auto simp add: get_conversation_id_def)

lemma conversation_update:
  "conversation (s\<lparr>messages := AList.update cid log (messages s')\<rparr>) k
     = (if k = cid then log else conversation s' k)"
  by (simp add: conversation_def update_conv')

lemma friends_of_setdefault:
  "friends_of (s\<lparr>friends := setdefault (friends s) uid {}\<rparr>) v = friends_of s v"
  by (simp add: friends_of_def setdefault_def split: option.splits)

lemma send_message_not_friends:
  assumes "target_id \<noteq> []" and "encrypted_message \<noteq> []"
      and "target_id \<notin> friends_of s sender_id"
  shows "snd (send_message s now sender_id (Some target_id) (Some encrypted_message))
           = send_error s sender_id ''Not friends with this user''"
    and "messages (fst (send_message s now sender_id (Some target_id) (Some encrypted_message)))
           = messages s"
  using assms
  by (simp_all add: send_message_def get_str_def Let_def send_error_def ws_send_def
        friends_of_setdefault)

lemma send_message_friends:
  assumes "target_id \<noteq> []" and "encrypted_message \<noteq> []"
      and "target_id \<in> friends_of s sender_id"
  shows "messages (fst (send_message s now sender_id (Some target_id) (Some encrypted_message)))
           = AList.update (get_conversation_id sender_id target_id)
               (conversation s (get_conversation_id sender_id target_id) @
                  [\<lparr>msg_sender_id = sender_id, msg_target_id = target_id,
                    msg_encrypted_message = encrypted_message, msg_timestamp = now\<rparr>])
               (messages s)"
    and "snd (send_message s now sender_id (Some target_id) (Some encrypted_message))
           = ws_send s target_id (MessageReceived sender_id target_id encrypted_message now)
             @ ws_send s sender_id (MessageReceived sender_id target_id encrypted_message now)"
  using assms
  by (simp_all add: send_message_def get_str_def Let_def send_error_def ws_send_def
        conversation_def friends_of_setdefault)

lemma get_conversation_id_sorted:
  "get_conversation_id user1_id user2_id
     = min user1_id user2_id @ ''_'' @ max user1_id user2_id"
  by (auto simp add: get_conversation_id_def min_def max_def)

lemma send_message_rest:
  "users (fst (send_message s now sender_id data_target data_message)) = users s"
  "user_data (fst (send_message s now sender_id data_target data_message)) = user_data s"
  "key_status (fst (send_message s now sender_id data_target data_message)) = key_status s"
  "friend_requests (fst (send_message s now sender_id data_target data_message))
     = friend_requests s"
  "friends_of (fst (send_message s now sender_id data_target data_message)) u
     = friends_of s u"
  by (simp_all add: send_message_def Let_def friends_of_def setdefault_def
        split: option.splits)

lemma a_writes_to_b_unbound:
  "handle_action s_late_friends 10 ''AAAAAA'' [''BBBBBB'']
       (SendMessage (Some ''BBBBBB'') (Some ''ct''))
     = (s_late_friends\<lparr>messages :=
           [(''AAAAAA_BBBBBB'',
             [\<lparr>msg_sender_id = ''AAAAAA'', msg_target_id = ''BBBBBB'',
               msg_encrypted_message = ''ct'', msg_timestamp = 10\<rparr>])]\<rparr>,
        [(2, MessageReceived ''AAAAAA'' ''BBBBBB'' ''ct'' 10)])"
  by (simp add: handle_action_def touch_last_seen_def send_message_def
        get_conversation_id_def conversation_def session_defs helper_defs fun_eq_iff)

lemma b_writes_to_a_one_sided:
  "handle_action s_rebound 9 ''BBBBBB'' [''AAAAAA'']
       (SendMessage (Some ''AAAAAA'') (Some ''ct''))
     = (s_rebound\<lparr>
          user_data := [''BBBBBB'' \<mapsto> fresh_rec 2 9, ''CCCCCC'' \<mapsto> fresh_rec 1 8],
          messages :=
           [(''AAAAAA_BBBBBB'',
             [\<lparr>msg_sender_id = ''BBBBBB'', msg_target_id = ''AAAAAA'',
               msg_encrypted_message = ''ct'', msg_timestamp = 9\<rparr>])]\<rparr>,
        [(2, MessageReceived ''BBBBBB'' ''AAAAAA'' ''ct'' 9)])"
  by (simp add: handle_action_def touch_last_seen_def send_message_def
        get_conversation_id_def conversation_def session_defs helper_defs fun_eq_iff)

text \<open>
  Claim C5 wants a message refused with NotFriends whenever the symmetric friend edge
  between the sender and the target does not exist, and wants the event echoed to the
  sender whenever the message is accepted. \<^verbatim>\<open>send_message\<close> tests
  \<^verbatim>\<open>target_id in self.friends[sender_id]\<close>, the set of the sender alone, and sends
  the echo with \<^verbatim>\<open>ws_send\<close> on the code of the sender. In the state \<open>s_rebound\<close> of
  the session \<open>BBBBBB\<close> lists \<open>AAAAAA\<close> and \<open>AAAAAA\<close> lists nobody: the message of
  \<open>BBBBBB\<close> to \<open>AAAAAA\<close> is appended to the log. In \<open>s_late_friends\<close> the two
  codes list each other, and the connection on websocket 1, whose loop passes
  \<open>AAAAAA\<close> and which owns \<open>DDDDDD\<close>, writes to \<open>BBBBBB\<close>: the message is
  appended and delivered to websocket 2, and nothing is sent to websocket 1.
\<close>

theorem send_message_one_sided_counterexample:
  "reachable s_rebound conns_ab
   \<and> (2, ''BBBBBB'') \<in> conns_ab
   \<and> \<not> friend_edge s_rebound ''BBBBBB'' ''AAAAAA''
   \<and> messages s_rebound = []
   \<and> messages (fst (handle_action s_rebound 9 ''BBBBBB'' [''AAAAAA'']
                       (SendMessage (Some ''AAAAAA'') (Some ''ct''))))
       = [(''AAAAAA_BBBBBB'',
           [\<lparr>msg_sender_id = ''BBBBBB'', msg_target_id = ''AAAAAA'',
             msg_encrypted_message = ''ct'', msg_timestamp = 9\<rparr>])]
   \<and> snd (handle_action s_rebound 9 ''BBBBBB'' [''AAAAAA'']
             (SendMessage (Some ''AAAAAA'') (Some ''ct'')))
       = [(2, MessageReceived ''BBBBBB'' ''AAAAAA'' ''ct'' 9)]
   \<and> reachable s_late_friends conns_ab
   \<and> (1, ''AAAAAA'') \<in> conns_ab
   \<and> users s_late_friends ''DDDDDD'' = Some 1
   \<and> friend_edge s_late_friends ''AAAAAA'' ''BBBBBB''
   \<and> snd (handle_action s_late_friends 10 ''AAAAAA'' [''BBBBBB'']
             (SendMessage (Some ''BBBBBB'') (Some ''ct'')))
       = [(2, MessageReceived ''AAAAAA'' ''BBBBBB'' ''ct'' 10)]"
proof -
  have facts: "(2, ''BBBBBB'') \<in> conns_ab
     \<and> \<not> friend_edge s_rebound ''BBBBBB'' ''AAAAAA''
     \<and> messages s_rebound = []
     \<and> (1, ''AAAAAA'') \<in> conns_ab
     \<and> users s_late_friends ''DDDDDD'' = Some 1
     \<and> friend_edge s_late_friends ''AAAAAA'' ''BBBBBB''"
    by (simp add: conns_ab_def friend_edge_def friends_of_def session_defs)
  from facts reachable_s_rebound reachable_s_late_friends show ?thesis
    by (simp add: b_writes_to_a_one_sided a_writes_to_b_unbound)
qed

text \<open>
  Claim C5 as amended. For a request with a target and a message that are not empty:
  when the target is not in the friends set of the sender, the only frame is the error
  "Not friends with this user" (NotFriends), sent on the code of the sender, and the
  logs are as before; when it is, exactly one entry, carrying the sender, the target,
  the ciphertext and the time, is appended to the log under the key made of the smaller
  of the two codes, an underscore and the larger one (the key that
  \<^verbatim>\<open>get_conversation_id\<close> gives for the two codes in either order), no other log
  changes, and the frame \<^verbatim>\<open>message_received\<close> is sent to the connection bound to the
  target, if there is one, and then to the connection bound to the code of the sender,
  if there is one. The bindings, the records, the key statuses, the pending lists and
  the friends sets are as before.
\<close>

theorem send_message_gating:
  assumes "target_id \<noteq> []" and "encrypted_message \<noteq> []"
      and "r = send_message s now sender_id (Some target_id) (Some encrypted_message)"
      and "cid = min sender_id target_id @ ''_'' @ max sender_id target_id"
      and "notification = MessageReceived sender_id target_id encrypted_message now"
      and "entry = \<lparr>msg_sender_id = sender_id, msg_target_id = target_id,
                     msg_encrypted_message = encrypted_message, msg_timestamp = now\<rparr>"
  shows "(target_id \<notin> friends_of s sender_id \<longrightarrow>
            snd r = send_error s sender_id ''Not friends with this user''
          \<and> (\<forall>w. users s sender_id = Some w \<longrightarrow>
                snd r = [(w, Error ''Not friends with this user'')])
          \<and> messages (fst r) = messages s)
       \<and> (target_id \<in> friends_of s sender_id \<longrightarrow>
            messages (fst r) = AList.update cid (conversation s cid @ [entry]) (messages s)
          \<and> conversation (fst r) cid = conversation s cid @ [entry]
          \<and> (\<forall>k. k \<noteq> cid \<longrightarrow> conversation (fst r) k = conversation s k)
          \<and> snd r = ws_send s target_id notification @ ws_send s sender_id notification
          \<and> (\<forall>wt. users s target_id = Some wt \<longrightarrow> (wt, notification) \<in> set (snd r))
          \<and> (\<forall>w. users s sender_id = Some w \<longrightarrow> (w, notification) \<in> set (snd r)))
       \<and> get_conversation_id sender_id target_id = cid
       \<and> get_conversation_id target_id sender_id = cid
       \<and> min sender_id target_id \<le> max sender_id target_id
       \<and> {min sender_id target_id, max sender_id target_id} = {sender_id, target_id}
       \<and> users (fst r) = users s \<and> user_data (fst r) = user_data s
       \<and> key_status (fst r) = key_status s \<and> friend_requests (fst r) = friend_requests s
       \<and> (\<forall>u. friends_of (fst r) u = friends_of s u)"
proof -
  have key: "get_conversation_id sender_id target_id = cid"
    using assms(4) by (simp add: get_conversation_id_sorted)
  have key': "get_conversation_id target_id sender_id = cid"
    using key by (simp add: get_conversation_id_commute)
  have order: "min sender_id target_id \<le> max sender_id target_id
      \<and> {min sender_id target_id, max sender_id target_id} = {sender_id, target_id}"
    by (auto simp add: min_def max_def)
  have rest: "users (fst r) = users s \<and> user_data (fst r) = user_data s
      \<and> key_status (fst r) = key_status s \<and> friend_requests (fst r) = friend_requests s
      \<and> (\<forall>u. friends_of (fst r) u = friends_of s u)"
    using assms(3) by (simp add: send_message_rest)
  have refused: "target_id \<notin> friends_of s sender_id \<longrightarrow>
            snd r = send_error s sender_id ''Not friends with this user''
          \<and> (\<forall>w. users s sender_id = Some w \<longrightarrow>
                snd r = [(w, Error ''Not friends with this user'')])
          \<and> messages (fst r) = messages s"
  proof
    assume no: "target_id \<notin> friends_of s sender_id"
    have "snd r = send_error s sender_id ''Not friends with this user''"
      using send_message_not_friends(1) [OF assms(1,2) no] assms(3) by simp
    moreover have "messages (fst r) = messages s"
      using send_message_not_friends(2) [OF assms(1,2) no] assms(3) by simp
    ultimately show "snd r = send_error s sender_id ''Not friends with this user''
          \<and> (\<forall>w. users s sender_id = Some w \<longrightarrow>
                snd r = [(w, Error ''Not friends with this user'')])
          \<and> messages (fst r) = messages s"
      by (simp add: send_error_def ws_send_def)
  qed
  have accepted: "target_id \<in> friends_of s sender_id \<longrightarrow>
            messages (fst r) = AList.update cid (conversation s cid @ [entry]) (messages s)
          \<and> conversation (fst r) cid = conversation s cid @ [entry]
          \<and> (\<forall>k. k \<noteq> cid \<longrightarrow> conversation (fst r) k = conversation s k)
          \<and> snd r = ws_send s target_id notification @ ws_send s sender_id notification
          \<and> (\<forall>wt. users s target_id = Some wt \<longrightarrow> (wt, notification) \<in> set (snd r))
          \<and> (\<forall>w. users s sender_id = Some w \<longrightarrow> (w, notification) \<in> set (snd r))"
  proof
    assume yes: "target_id \<in> friends_of s sender_id"
    have msgs: "messages (fst r)
        = AList.update cid (conversation s cid @ [entry]) (messages s)"
      using send_message_friends(1) [OF assms(1,2) yes] assms(3,6) key by simp
    have out: "snd r = ws_send s target_id notification @ ws_send s sender_id notification"
      using send_message_friends(2) [OF assms(1,2) yes] assms(3,5) by simp
    have conv: "conversation (fst r) k
        = (if k = cid then conversation s cid @ [entry] else conversation s k)" for k
      using msgs by (simp add: conversation_def update_conv')
    show "messages (fst r) = AList.update cid (conversation s cid @ [entry]) (messages s)
          \<and> conversation (fst r) cid = conversation s cid @ [entry]
          \<and> (\<forall>k. k \<noteq> cid \<longrightarrow> conversation (fst r) k = conversation s k)
          \<and> snd r = ws_send s target_id notification @ ws_send s sender_id notification
          \<and> (\<forall>wt. users s target_id = Some wt \<longrightarrow> (wt, notification) \<in> set (snd r))
          \<and> (\<forall>w. users s sender_id = Some w \<longrightarrow> (w, notification) \<in> set (snd r))"
      using msgs out conv by (simp add: ws_send_def)
  qed
  from order have o1: "min sender_id target_id \<le> max sender_id target_id"
    and o2: "{min sender_id target_id, max sender_id target_id} = {sender_id, target_id}"
    by simp_all
  from rest have r1: "users (fst r) = users s" and r2: "user_data (fst r) = user_data s"
    and r3: "key_status (fst r) = key_status s"
    and r4: "friend_requests (fst r) = friend_requests s"
    and r5: "\<forall>u. friends_of (fst r) u = friends_of s u"
    by simp_all
  show ?thesis
    by (intro conjI) (fact refused accepted key key' o1 o2 r1 r2 r3 r4 r5)+
qed

theorem send_message_gating_witness:
  "messages (fst (send_message s_friends 9 ''BBBBBB'' (Some ''AAAAAA'') (Some ''ct'')))
     = [(''AAAAAA_BBBBBB'',
         [\<lparr>msg_sender_id = ''BBBBBB'', msg_target_id = ''AAAAAA'',
           msg_encrypted_message = ''ct'', msg_timestamp = 9\<rparr>])]
   \<and> get_conversation_id ''BBBBBB'' ''AAAAAA'' = ''AAAAAA_BBBBBB''
   \<and> get_conversation_id ''AAAAAA'' ''BBBBBB'' = ''AAAAAA_BBBBBB''
   \<and> snd (send_message s_friends 9 ''BBBBBB'' (Some ''AAAAAA'') (Some ''ct''))
     = [(1, MessageReceived ''BBBBBB'' ''AAAAAA'' ''ct'' 9),
        (2, MessageReceived ''BBBBBB'' ''AAAAAA'' ''ct'' 9)]
   \<and> snd (send_message s_friends 9 ''AAAAAA'' (Some ''CCCCCC'') (Some ''ct''))
     = [(1, Error ''Not friends with this user'')]
   \<and> messages (fst (send_message s_friends 9 ''AAAAAA'' (Some ''CCCCCC'') (Some ''ct''))) = []"
  using send_message_gating [where target_id = "''AAAAAA''" and encrypted_message = "''ct''"
          and s = s_friends and sender_id = "''BBBBBB''" and now = 9
          and r = "send_message s_friends 9 ''BBBBBB'' (Some ''AAAAAA'') (Some ''ct'')"
          and cid = "''AAAAAA_BBBBBB''"
          and notification = "MessageReceived ''BBBBBB'' ''AAAAAA'' ''ct'' 9"
          and entry = "\<lparr>msg_sender_id = ''BBBBBB'', msg_target_id = ''AAAAAA'',
                         msg_encrypted_message = ''ct'', msg_timestamp = 9\<rparr>"]
        send_message_gating [where target_id = "''CCCCCC''" and encrypted_message = "''ct''"
          and s = s_friends and sender_id = "''AAAAAA''" and now = 9
          and r = "send_message s_friends 9 ''AAAAAA'' (Some ''CCCCCC'') (Some ''ct'')"
          and cid = "''AAAAAA_CCCCCC''"
          and notification = "MessageReceived ''AAAAAA'' ''CCCCCC'' ''ct'' 9"
          and entry = "\<lparr>msg_sender_id = ''AAAAAA'', msg_target_id = ''CCCCCC'',
                         msg_encrypted_message = ''ct'', msg_timestamp = 9\<rparr>"]
  by (simp add: min_def max_def conversation_def session_defs friends_of_def ws_send_def
        send_error_def)

section \<open>Friend requests\<close>

lemma send_friend_request_invalid:
  assumes "target_id = strip (upper (get_str data_target))"
  shows "length target_id \<noteq> 6 \<Longrightarrow>
           send_friend_request s now sender_id data_target
             = (s, send_error s sender_id ''Invalid user ID format'')"
    and "length target_id = 6 \<Longrightarrow> users s target_id = None \<Longrightarrow>
           send_friend_request s now sender_id data_target
             = (s, send_error s sender_id ''User ID not found or offline'')"
    and "length target_id = 6 \<Longrightarrow> users s target_id \<noteq> None \<Longrightarrow> target_id = sender_id \<Longrightarrow>
           send_friend_request s now sender_id data_target
             = (s, send_error s sender_id ''Cannot add yourself as friend'')"
  using assms
  by (auto simp add: send_friend_request_def Let_def)

lemma send_friend_request_already:
  assumes "target_id = strip (upper (get_str data_target))"
      and "sendable s sender_id target_id"
      and "target_id \<in> friends_of s sender_id"
  shows "snd (send_friend_request s now sender_id data_target)
           = send_error s sender_id ''Already friends with this user''"
    and "pending_of (fst (send_friend_request s now sender_id data_target)) t = pending_of s t"
  using assms
  by (auto simp add: send_friend_request_def Let_def sendable_def send_error_def ws_send_def
        pending_of_def friends_of_def setdefault_def split: option.splits)

lemma send_friend_request_duplicate:
  assumes "target_id = strip (upper (get_str data_target))"
      and "sendable s sender_id target_id"
      and "target_id \<notin> friends_of s sender_id"
      and "sender_id \<in> req_sender_id ` set (pending_of s target_id)"
  shows "snd (send_friend_request s now sender_id data_target)
           = send_error s sender_id ''Friend request already sent''"
    and "pending_of (fst (send_friend_request s now sender_id data_target)) t = pending_of s t"
  using assms
  by (auto simp add: send_friend_request_def Let_def sendable_def send_error_def ws_send_def
        filter_empty_conv pending_of_def friends_of_def setdefault_def split: option.splits)

lemma send_friend_request_enqueue:
  assumes "target_id = strip (upper (get_str data_target))"
      and "sendable s sender_id target_id"
      and "target_id \<notin> friends_of s sender_id"
      and "sender_id \<notin> req_sender_id ` set (pending_of s target_id)"
  shows "snd (send_friend_request s now sender_id data_target)
           = ws_send s target_id (FriendRequestReceived sender_id now)
             @ ws_send s sender_id (FriendRequestSent target_id)"
    and "pending_of (fst (send_friend_request s now sender_id data_target)) t
           = (if t = target_id
              then pending_of s target_id @ [\<lparr>req_sender_id = sender_id, req_timestamp = now\<rparr>]
              else pending_of s t)"
  using assms
  by (auto simp add: send_friend_request_def Let_def sendable_def send_error_def ws_send_def
        filter_empty_conv pending_of_def friends_of_def setdefault_def split: option.splits)

lemma send_friend_request_pending:
  assumes "target_id = strip (upper (get_str data_target))"
  shows "pending_of (fst (send_friend_request s now sender_id data_target)) t = pending_of s t
       \<or> (sender_id \<notin> req_sender_id ` set (pending_of s target_id)
          \<and> pending_of (fst (send_friend_request s now sender_id data_target)) t
            = pending_of s target_id @ [\<lparr>req_sender_id = sender_id, req_timestamp = now\<rparr>])"
  using assms
  by (auto simp add: send_friend_request_def Let_def filter_empty_conv pending_of_def
        setdefault_def split: option.splits)

lemma send_friend_request_rest:
  "friends_of (fst (send_friend_request s now sender_id data_target)) t = friends_of s t"
  "users (fst (send_friend_request s now sender_id data_target)) = users s"
  "user_data (fst (send_friend_request s now sender_id data_target)) = user_data s"
  "messages (fst (send_friend_request s now sender_id data_target)) = messages s"
  "key_status (fst (send_friend_request s now sender_id data_target)) = key_status s"
  by (auto simp add: send_friend_request_def Let_def friends_of_def setdefault_def
        split: option.splits)

section \<open>One pending request for each sender\<close>

lemma pending_of_cong: "friend_requests s' = friend_requests s \<Longrightarrow> pending_of s' t = pending_of s t"
  by (simp add: pending_of_def)

lemma pending_distinct_cong:
  "friend_requests s' = friend_requests s \<Longrightarrow> pending_distinct s' = pending_distinct s"
  by (simp add: pending_distinct_def pending_of_def)

lemma friend_requests_touch_last_seen:
  "friend_requests (touch_last_seen s now user_id) = friend_requests s"
  by (simp add: touch_last_seen_def split: option.splits)

lemma friend_requests_get_friends:
  "friend_requests (fst (get_friends s user_id)) = friend_requests s"
  by (simp add: get_friends_def Let_def)

lemma friend_requests_unchanged:
  "friend_requests (fst (handle_ping s user_id)) = friend_requests s"
  "friend_requests (fst (set_public_key s user_id data_public_key walk)) = friend_requests s"
  "friend_requests (fst (set_key_status s user_id data_private data_public)) = friend_requests s"
  "friend_requests (fst (send_message s now user_id data_target data_message)) = friend_requests s"
  "friend_requests (fst (get_messages s user_id data_target)) = friend_requests s"
  "friend_requests (fst (get_key_status s user_id)) = friend_requests s"
  by (simp_all add: handle_ping_def set_public_key_def set_key_status_def send_message_def
        get_messages_def get_key_status_def Let_def split: option.splits)

lemma pending_distinct_send_friend_request:
  assumes "pending_distinct s"
  shows "pending_distinct (fst (send_friend_request s now sender_id data_target))"
  unfolding pending_distinct_def
proof
  fix t
  from assms have dt: "distinct (map req_sender_id (pending_of s t))"
    and dg: "distinct (map req_sender_id
               (pending_of s (strip (upper (get_str data_target)))))"
    by (simp_all add: pending_distinct_def)
  from send_friend_request_pending [OF refl, of s now sender_id data_target t] dt dg
  show "distinct (map req_sender_id
          (pending_of (fst (send_friend_request s now sender_id data_target)) t))"
    by auto
qed

lemma pending_distinct_respond_friend_request:
  assumes "pending_distinct s"
  shows "pending_distinct (fst (respond_friend_request s user_id data_sender data_accepted))"
proof -
  have "pending_of (fst (respond_friend_request s user_id data_sender data_accepted)) t
          = pending_of s t
      \<or> pending_of (fst (respond_friend_request s user_id data_sender data_accepted)) t
          = filter (\<lambda>req. req_sender_id req \<noteq> get_str data_sender) (pending_of s user_id)"
    for t
    by (simp add: respond_friend_request_def Let_def get_friends_def pending_of_def)
  with assms show ?thesis
    unfolding pending_distinct_def
    by (metis distinct_map_filter)
qed

lemma pending_distinct_get_friends:
  "pending_distinct (fst (get_friends s user_id)) = pending_distinct s"
  by (rule pending_distinct_cong [OF friend_requests_get_friends])

lemma pending_distinct_rebind_session:
  assumes "pending_distinct s"
  shows "pending_distinct (rebind_session s now current_id requested_id w)"
proof -
  have "pending_of (rebind_session s now current_id requested_id w) t
          = (if t = current_id then [] else pending_of s t)" for t
    by (simp add: rebind_session_def Let_def pending_of_def)
  with assms show ?thesis
    by (simp add: pending_distinct_def)
qed

lemma pending_distinct_adopt_session:
  assumes "pending_distinct s"
  shows "pending_distinct (adopt_session s now current_id requested_id w)"
proof -
  have "pending_of (adopt_session s now current_id requested_id w) t
          = (if t = current_id then []
             else if t = requested_id \<and> friend_requests s current_id \<noteq> None
             then pending_of s current_id else pending_of s t)" for t
    by (simp add: adopt_session_def Let_def pending_of_def split: option.splits)
  with assms show ?thesis
    by (simp add: pending_distinct_def)
qed

lemma pending_distinct_resume_session:
  assumes "pending_distinct s"
  shows "pending_distinct (fst (resume_session s now current_id data_user_id))"
  using assms
  by (simp add: resume_session_def Let_def pending_distinct_get_friends
        pending_distinct_rebind_session pending_distinct_adopt_session split: option.splits)

lemma handle_action_unfold:
  "handle_action s now user_id walk a =
     (case a of
        Ping \<Rightarrow> handle_ping (touch_last_seen s now user_id) user_id
      | SetPublicKey d \<Rightarrow> set_public_key (touch_last_seen s now user_id) user_id d walk
      | SetKeyStatus p q \<Rightarrow> set_key_status (touch_last_seen s now user_id) user_id p q
      | ResumeSession d \<Rightarrow> resume_session (touch_last_seen s now user_id) now user_id d
      | SendFriendRequest d \<Rightarrow>
          send_friend_request (touch_last_seen s now user_id) now user_id d
      | RespondFriendRequest d acc \<Rightarrow>
          respond_friend_request (touch_last_seen s now user_id) user_id d acc
      | SendMessage d m \<Rightarrow> send_message (touch_last_seen s now user_id) now user_id d m
      | GetFriends \<Rightarrow> get_friends (touch_last_seen s now user_id) user_id
      | GetMessages d \<Rightarrow> get_messages (touch_last_seen s now user_id) user_id d
      | GetKeyStatus \<Rightarrow> get_key_status (touch_last_seen s now user_id) user_id
      | UnknownAction name \<Rightarrow>
          (touch_last_seen s now user_id,
           send_error (touch_last_seen s now user_id) user_id (''Unknown action: '' @ name)))"
  unfolding handle_action_def Let_def ..

lemma pending_distinct_handle_action:
  assumes "pending_distinct s"
  shows "pending_distinct (fst (handle_action s now user_id walk a))"
proof -
  have t: "pending_distinct (touch_last_seen s now user_id)"
    using assms
    by (simp add: pending_distinct_cong [OF friend_requests_touch_last_seen])
  show ?thesis
  proof (cases a)
    case Ping
    have "pending_distinct (fst (handle_ping (touch_last_seen s now user_id) user_id))"
      using t by (simp only: pending_distinct_cong [OF friend_requests_unchanged(1)])
    with Ping show ?thesis
      by (simp only: handle_action_unfold action.case)
  next
    case (SetPublicKey d)
    have "pending_distinct
            (fst (set_public_key (touch_last_seen s now user_id) user_id d walk))"
      using t by (simp only: pending_distinct_cong [OF friend_requests_unchanged(2)])
    with SetPublicKey show ?thesis
      by (simp only: handle_action_unfold action.case)
  next
    case (SetKeyStatus p q)
    have "pending_distinct
            (fst (set_key_status (touch_last_seen s now user_id) user_id p q))"
      using t by (simp only: pending_distinct_cong [OF friend_requests_unchanged(3)])
    with SetKeyStatus show ?thesis
      by (simp only: handle_action_unfold action.case)
  next
    case (ResumeSession d)
    with pending_distinct_resume_session [OF t] show ?thesis
      by (simp only: handle_action_unfold action.case)
  next
    case (SendFriendRequest d)
    with pending_distinct_send_friend_request [OF t] show ?thesis
      by (simp only: handle_action_unfold action.case)
  next
    case (RespondFriendRequest d acc)
    with pending_distinct_respond_friend_request [OF t] show ?thesis
      by (simp only: handle_action_unfold action.case)
  next
    case (SendMessage d m)
    have "pending_distinct
            (fst (send_message (touch_last_seen s now user_id) now user_id d m))"
      using t by (simp only: pending_distinct_cong [OF friend_requests_unchanged(4)])
    with SendMessage show ?thesis
      by (simp only: handle_action_unfold action.case)
  next
    case GetFriends
    have "pending_distinct (fst (get_friends (touch_last_seen s now user_id) user_id))"
      using t by (simp only: pending_distinct_get_friends)
    with GetFriends show ?thesis
      by (simp only: handle_action_unfold action.case)
  next
    case (GetMessages d)
    have "pending_distinct
            (fst (get_messages (touch_last_seen s now user_id) user_id d))"
      using t by (simp only: pending_distinct_cong [OF friend_requests_unchanged(5)])
    with GetMessages show ?thesis
      by (simp only: handle_action_unfold action.case)
  next
    case GetKeyStatus
    have "pending_distinct (fst (get_key_status (touch_last_seen s now user_id) user_id))"
      using t by (simp only: pending_distinct_cong [OF friend_requests_unchanged(6)])
    with GetKeyStatus show ?thesis
      by (simp only: handle_action_unfold action.case)
  next
    case (UnknownAction name)
    with t show ?thesis
      by (simp only: handle_action_unfold action.case fst_conv)
  qed
qed

lemma friend_requests_handle_connect:
  assumes "handle_connect s now w draws = Some (user_id, s', out)"
  shows "friend_requests s' = friend_requests s"
proof (cases "generate_user_id s draws")
  case None
  with assms show ?thesis
    by (simp add: handle_connect_def)
next
  case (Some c)
  with assms have "s' = fst (get_friends
      (s\<lparr>users := (users s)(c \<mapsto> w),
         user_data := (user_data s)(c \<mapsto>
            \<lparr>websocket = Some w, public_key = None, last_seen = now\<rparr>),
         key_status := (key_status s)(c \<mapsto>
            \<lparr>private_key_loaded = False, public_key_loaded = False\<rparr>)\<rparr>) c)"
    by (auto simp add: handle_connect_def Let_def)
  then show ?thesis
    by (simp add: friend_requests_get_friends)
qed

lemma reachable_pending_distinct:
  "reachable s conns \<Longrightarrow> pending_distinct s"
proof (induction rule: reachable.induct)
  case reachable_init
  show ?case
    by (simp add: pending_distinct_def pending_of_def init_state_def)
next
  case (reachable_connect s conns w draws now user_id s' out)
  have "friend_requests s' = friend_requests s"
    by (rule friend_requests_handle_connect [OF reachable_connect.hyps(4)])
  from pending_distinct_cong [OF this] reachable_connect.IH
  show ?case
    by simp
next
  case (reachable_action s conns w user_id walk now a s' out)
  have "pending_distinct (fst (handle_action s now user_id walk a))"
    by (rule pending_distinct_handle_action [OF reachable_action.IH])
  with reachable_action.hyps(5) show ?case
    by simp
next
  case (reachable_disconnect s conns w user_id now)
  have "friend_requests (cleanup_user s now user_id) = friend_requests s"
    by (simp add: cleanup_user_def)
  from pending_distinct_cong [OF this] reachable_disconnect.IH show ?case
    by simp
qed

text \<open>
  Claim C7. With the target upper-cased and stripped, \<^verbatim>\<open>send_friend_request\<close>
  \<^item> answers "Invalid user ID format", "User ID not found or offline" or "Cannot add
    yourself as friend" (the InvalidInput errors) and changes nothing when the target
    is not a six-character code bound to a connection, or is the sender;
  \<^item> otherwise answers "Already friends with this user" (AlreadyFriends) when the
    target is in the sender's friends set, and no pending list changes;
  \<^item> otherwise answers "Friend request already sent" (DuplicateRequest) when the
    target's pending list holds a request of the sender, and no pending list changes;
  \<^item> otherwise appends the one request of the sender, with the time, to the pending list
    of the target, changes no other pending list, and sends
    \<^verbatim>\<open>friend_request_received\<close> to the connection of the target, then
    \<^verbatim>\<open>friend_request_sent\<close> to the sender; the sender then has exactly one request
    in that list.

  In every case the friends sets, the bindings, the records, the logs and the key
  statuses are as before, and pending lists that held at most one request per sender
  still do; in every state the server can reach they hold at most one request per
  sender.
\<close>

theorem send_friend_request_outcomes:
  assumes "target_id = strip (upper (get_str data_target))"
      and "r = send_friend_request s now sender_id data_target"
  shows "(length target_id \<noteq> 6 \<longrightarrow>
            r = (s, send_error s sender_id ''Invalid user ID format''))
       \<and> (length target_id = 6 \<and> users s target_id = None \<longrightarrow>
            r = (s, send_error s sender_id ''User ID not found or offline''))
       \<and> (length target_id = 6 \<and> users s target_id \<noteq> None \<and> target_id = sender_id \<longrightarrow>
            r = (s, send_error s sender_id ''Cannot add yourself as friend''))
       \<and> (sendable s sender_id target_id \<and> target_id \<in> friends_of s sender_id \<longrightarrow>
            snd r = send_error s sender_id ''Already friends with this user''
          \<and> (\<forall>t. pending_of (fst r) t = pending_of s t))
       \<and> (sendable s sender_id target_id \<and> target_id \<notin> friends_of s sender_id
            \<and> sender_id \<in> req_sender_id ` set (pending_of s target_id) \<longrightarrow>
            snd r = send_error s sender_id ''Friend request already sent''
          \<and> (\<forall>t. pending_of (fst r) t = pending_of s t))
       \<and> (sendable s sender_id target_id \<and> target_id \<notin> friends_of s sender_id
            \<and> sender_id \<notin> req_sender_id ` set (pending_of s target_id) \<longrightarrow>
            pending_of (fst r) target_id
              = pending_of s target_id @ [\<lparr>req_sender_id = sender_id, req_timestamp = now\<rparr>]
          \<and> (\<forall>t. t \<noteq> target_id \<longrightarrow> pending_of (fst r) t = pending_of s t)
          \<and> length (filter (\<lambda>req. req_sender_id req = sender_id)
                      (pending_of (fst r) target_id)) = 1
          \<and> snd r = ws_send s target_id (FriendRequestReceived sender_id now)
                     @ ws_send s sender_id (FriendRequestSent target_id)
          \<and> ws_send s target_id (FriendRequestReceived sender_id now) \<noteq> [])
       \<and> ((\<forall>t. distinct (map req_sender_id (pending_of s t))) \<longrightarrow>
            (\<forall>t. distinct (map req_sender_id (pending_of (fst r) t))))
       \<and> (reachable s conns \<longrightarrow> pending_distinct s \<and> pending_distinct (fst r))
       \<and> (\<forall>t. friends_of (fst r) t = friends_of s t)
       \<and> users (fst r) = users s \<and> user_data (fst r) = user_data s
       \<and> messages (fst r) = messages s \<and> key_status (fst r) = key_status s"
proof -
  note inv = send_friend_request_invalid [OF assms(1)]
  have c1: "length target_id \<noteq> 6 \<longrightarrow>
              r = (s, send_error s sender_id ''Invalid user ID format'')"
    using inv(1) assms(2) by blast
  have c2: "length target_id = 6 \<and> users s target_id = None \<longrightarrow>
              r = (s, send_error s sender_id ''User ID not found or offline'')"
    using inv(2) assms(2) by blast
  have c3: "length target_id = 6 \<and> users s target_id \<noteq> None \<and> target_id = sender_id \<longrightarrow>
              r = (s, send_error s sender_id ''Cannot add yourself as friend'')"
    using inv(3) assms(2) by blast
  have c4: "sendable s sender_id target_id \<and> target_id \<in> friends_of s sender_id \<longrightarrow>
              snd r = send_error s sender_id ''Already friends with this user''
            \<and> (\<forall>t. pending_of (fst r) t = pending_of s t)"
    using send_friend_request_already [OF assms(1)] assms(2) by simp
  have c5: "sendable s sender_id target_id \<and> target_id \<notin> friends_of s sender_id
              \<and> sender_id \<in> req_sender_id ` set (pending_of s target_id) \<longrightarrow>
              snd r = send_error s sender_id ''Friend request already sent''
            \<and> (\<forall>t. pending_of (fst r) t = pending_of s t)"
    using send_friend_request_duplicate [OF assms(1)] assms(2) by simp
  have c6: "sendable s sender_id target_id \<and> target_id \<notin> friends_of s sender_id
              \<and> sender_id \<notin> req_sender_id ` set (pending_of s target_id) \<longrightarrow>
              pending_of (fst r) target_id
                = pending_of s target_id @ [\<lparr>req_sender_id = sender_id, req_timestamp = now\<rparr>]
            \<and> (\<forall>t. t \<noteq> target_id \<longrightarrow> pending_of (fst r) t = pending_of s t)
            \<and> length (filter (\<lambda>req. req_sender_id req = sender_id)
                        (pending_of (fst r) target_id)) = 1
            \<and> snd r = ws_send s target_id (FriendRequestReceived sender_id now)
                       @ ws_send s sender_id (FriendRequestSent target_id)
            \<and> ws_send s target_id (FriendRequestReceived sender_id now) \<noteq> []"
  proof (intro impI, elim conjE)
    assume ok: "sendable s sender_id target_id" "target_id \<notin> friends_of s sender_id"
               "sender_id \<notin> req_sender_id ` set (pending_of s target_id)"
    note enq = send_friend_request_enqueue [OF assms(1) ok]
    have none: "filter (\<lambda>req. req_sender_id req = sender_id) (pending_of s target_id) = []"
      using ok(3) by (auto simp add: filter_empty_conv)
    have live: "ws_send s target_id (FriendRequestReceived sender_id now) \<noteq> []"
      using ok(1) by (auto simp add: sendable_def ws_send_def)
    show "pending_of (fst r) target_id
            = pending_of s target_id @ [\<lparr>req_sender_id = sender_id, req_timestamp = now\<rparr>]
        \<and> (\<forall>t. t \<noteq> target_id \<longrightarrow> pending_of (fst r) t = pending_of s t)
        \<and> length (filter (\<lambda>req. req_sender_id req = sender_id)
                    (pending_of (fst r) target_id)) = 1
        \<and> snd r = ws_send s target_id (FriendRequestReceived sender_id now)
                   @ ws_send s sender_id (FriendRequestSent target_id)
        \<and> ws_send s target_id (FriendRequestReceived sender_id now) \<noteq> []"
      using enq none live assms(2) by simp
  qed
  have c7: "(\<forall>t. distinct (map req_sender_id (pending_of s t))) \<longrightarrow>
            (\<forall>t. distinct (map req_sender_id (pending_of (fst r) t)))"
  proof (intro impI allI)
    fix t
    assume d: "\<forall>t. distinct (map req_sender_id (pending_of s t))"
    then have dt: "distinct (map req_sender_id (pending_of s t))"
      and dg: "distinct (map req_sender_id (pending_of s target_id))"
      by simp_all
    have "pending_of (fst r) t = pending_of s t
        \<or> (sender_id \<notin> req_sender_id ` set (pending_of s target_id)
           \<and> pending_of (fst r) t
             = pending_of s target_id @ [\<lparr>req_sender_id = sender_id, req_timestamp = now\<rparr>])"
      using send_friend_request_pending [OF assms(1)] assms(2) by simp
    then show "distinct (map req_sender_id (pending_of (fst r) t))"
    proof
      assume "pending_of (fst r) t = pending_of s t"
      with dt show ?thesis by simp
    next
      assume "sender_id \<notin> req_sender_id ` set (pending_of s target_id)
           \<and> pending_of (fst r) t
             = pending_of s target_id @ [\<lparr>req_sender_id = sender_id, req_timestamp = now\<rparr>]"
      with dg show ?thesis by simp
    qed
  qed
  have c8: "(\<forall>t. friends_of (fst r) t = friends_of s t)
       \<and> users (fst r) = users s \<and> user_data (fst r) = user_data s
       \<and> messages (fst r) = messages s \<and> key_status (fst r) = key_status s"
    using send_friend_request_rest assms(2) by simp
  from c8 have c8a: "\<forall>t. friends_of (fst r) t = friends_of s t"
    and c8b: "users (fst r) = users s" and c8c: "user_data (fst r) = user_data s"
    and c8d: "messages (fst r) = messages s" and c8e: "key_status (fst r) = key_status s"
    by simp_all
  have c9: "reachable s conns \<longrightarrow> pending_distinct s \<and> pending_distinct (fst r)"
    using reachable_pending_distinct [of s conns]
      pending_distinct_send_friend_request [of s now sender_id data_target] assms(2)
    by simp
  show ?thesis
    by (intro conjI) (fact c1 c2 c3 c4 c5 c6 c7 c8a c8b c8c c8d c8e c9)+
qed

theorem send_friend_request_outcomes_witness:
  "pending_of (fst (send_friend_request s_offline 6 ''AAAAAA'' (Some ''bbbbbb''))) ''BBBBBB''
     = [\<lparr>req_sender_id = ''AAAAAA'', req_timestamp = 6\<rparr>]
   \<and> snd (send_friend_request s_offline 6 ''AAAAAA'' (Some ''bbbbbb''))
     = [(2, FriendRequestReceived ''AAAAAA'' 6), (1, FriendRequestSent ''BBBBBB'')]
   \<and> send_friend_request s_offline 6 ''AAAAAA'' (Some ''CCCCCC'')
     = (s_offline, [(1, Error ''User ID not found or offline'')])
   \<and> snd (send_friend_request s_pending 7 ''AAAAAA'' (Some ''bbbbbb''))
     = [(1, Error ''Friend request already sent'')]
   \<and> snd (send_friend_request s_friends 7 ''AAAAAA'' (Some ''bbbbbb''))
     = [(1, Error ''Already friends with this user'')]
   \<and> pending_distinct (fst (send_friend_request s_offline 6 ''AAAAAA'' (Some ''bbbbbb'')))"
  using reachable_s_offline send_friend_request_outcomes [where target_id = "''BBBBBB''" and data_target = "Some ''bbbbbb''"
          and s = s_offline and now = 6 and sender_id = "''AAAAAA''" and conns = conns_ab
          and r = "send_friend_request s_offline 6 ''AAAAAA'' (Some ''bbbbbb'')"]
        send_friend_request_outcomes [where target_id = "''CCCCCC''" and data_target = "Some ''CCCCCC''"
          and s = s_offline and now = 6 and sender_id = "''AAAAAA''"
          and r = "send_friend_request s_offline 6 ''AAAAAA'' (Some ''CCCCCC'')"]
        send_friend_request_outcomes [where target_id = "''BBBBBB''" and data_target = "Some ''bbbbbb''"
          and s = s_pending and now = 7 and sender_id = "''AAAAAA''"
          and r = "send_friend_request s_pending 7 ''AAAAAA'' (Some ''bbbbbb'')"]
        send_friend_request_outcomes [where target_id = "''BBBBBB''" and data_target = "Some ''bbbbbb''"
          and s = s_friends and now = 7 and sender_id = "''AAAAAA''"
          and r = "send_friend_request s_friends 7 ''AAAAAA'' (Some ''bbbbbb'')"]
  by (simp add: strip_upper_bbbbbb strip_upper_CCCCCC get_str_def sendable_def session_defs
        friends_of_def pending_of_def ws_send_def send_error_def)

section \<open>Case of the codes\<close>

lemma upper_char_idem: "upper_char (upper_char c) = upper_char c"
  by (auto simp add: upper_char_def less_eq_char_def)

lemma upper_idem: "upper (upper str) = upper str"
  by (simp add: upper_def upper_char_idem)

text \<open>
  The two handlers that upper-case the code they are given, \<^verbatim>\<open>resume_session\<close> and
  \<^verbatim>\<open>send_friend_request\<close>, return the same state and send the same frames for a code
  and for its upper-case form, whatever the state.
\<close>

lemma upper_cased_codes_behave_alike:
  "resume_session s now current_id (Some raw)
     = resume_session s now current_id (Some (upper raw))
   \<and> send_friend_request s now sender_id (Some raw)
     = send_friend_request s now sender_id (Some (upper raw))"
  by (simp add: resume_session_def send_friend_request_def get_str_def upper_idem)

text \<open>
  Claim C6 wants every action that carries a code to behave, on a code in lower or
  mixed case, as on its upper-case form. \<^verbatim>\<open>send_message\<close>, \<^verbatim>\<open>get_messages\<close> and
  \<^verbatim>\<open>respond_friend_request\<close> use the field as it comes, where
  \<^verbatim>\<open>send_friend_request\<close> upper-cases the same field \<^verbatim>\<open>target_id\<close>. In the
  states \<open>s_friends\<close> and \<open>s_pending\<close> of the session, \<open>AAAAAA\<close> writing to its
  friend as \<open>bbbbbb\<close>, or asking for their messages, is told they are not friends,
  and \<open>BBBBBB\<close> accepting the request of \<open>aaaaaa\<close> is told there is no such
  request and gets no friend; the upper-case forms succeed.
\<close>

theorem lower_case_code_not_recognised:
  "reachable s_friends conns_ab
   \<and> reachable s_pending conns_ab
   \<and> snd (send_message s_friends 9 ''AAAAAA'' (Some ''bbbbbb'') (Some ''ct''))
       = [(1, Error ''Not friends with this user'')]
   \<and> snd (send_message s_friends 9 ''AAAAAA'' (Some (upper ''bbbbbb'')) (Some ''ct''))
       = [(2, MessageReceived ''AAAAAA'' ''BBBBBB'' ''ct'' 9),
          (1, MessageReceived ''AAAAAA'' ''BBBBBB'' ''ct'' 9)]
   \<and> snd (get_messages s_friends ''AAAAAA'' (Some ''bbbbbb''))
       = [(1, Error ''Not friends with this user'')]
   \<and> snd (get_messages s_friends ''AAAAAA'' (Some (upper ''bbbbbb'')))
       = [(1, ConversationMessages ''BBBBBB'' [] 0)]
   \<and> snd (respond_friend_request s_pending ''BBBBBB'' (Some ''aaaaaa'') (Some True))
       = [(2, Error ''Friend request not found'')]
   \<and> friends_of (fst (respond_friend_request s_pending ''BBBBBB'' (Some ''aaaaaa'')
                          (Some True))) ''BBBBBB'' = {}
   \<and> snd (respond_friend_request s_pending ''BBBBBB'' (Some (upper ''aaaaaa'')) (Some True))
       = [(2, FriendAdded ''AAAAAA'' None), (1, FriendAdded ''BBBBBB'' None),
          (2, FriendsList {(''AAAAAA'', None, Some 6, True)}),
          (1, FriendsList {(''BBBBBB'', None, Some 0, True)})]
   \<and> friends_of (fst (respond_friend_request s_pending ''BBBBBB'' (Some (upper ''aaaaaa''))
                          (Some True))) ''BBBBBB'' = {''AAAAAA''}
   \<and> send_message s_friends 9 ''AAAAAA'' (Some ''bbbbbb'') (Some ''ct'')
     \<noteq> send_message s_friends 9 ''AAAAAA'' (Some (upper ''bbbbbb'')) (Some ''ct'')
   \<and> get_messages s_friends ''AAAAAA'' (Some ''bbbbbb'')
     \<noteq> get_messages s_friends ''AAAAAA'' (Some (upper ''bbbbbb''))
   \<and> respond_friend_request s_pending ''BBBBBB'' (Some ''aaaaaa'') (Some True)
     \<noteq> respond_friend_request s_pending ''BBBBBB'' (Some (upper ''aaaaaa'')) (Some True)"
proof -
  have m1: "snd (send_message s_friends 9 ''AAAAAA'' (Some ''bbbbbb'') (Some ''ct''))
              = [(1, Error ''Not friends with this user'')]"
    by (simp add: send_message_def session_defs helper_defs)
  have m2: "snd (send_message s_friends 9 ''AAAAAA'' (Some (upper ''bbbbbb'')) (Some ''ct''))
              = [(2, MessageReceived ''AAAAAA'' ''BBBBBB'' ''ct'' 9),
                 (1, MessageReceived ''AAAAAA'' ''BBBBBB'' ''ct'' 9)]"
    by (simp add: upper_bbbbbb send_message_def session_defs helper_defs)
  have g1: "snd (get_messages s_friends ''AAAAAA'' (Some ''bbbbbb''))
              = [(1, Error ''Not friends with this user'')]"
    by (simp add: get_messages_def session_defs helper_defs)
  have g2: "snd (get_messages s_friends ''AAAAAA'' (Some (upper ''bbbbbb'')))
              = [(1, ConversationMessages ''BBBBBB'' [] 0)]"
    by (simp add: upper_bbbbbb get_messages_def conversation_def session_defs helper_defs)
  have r1: "snd (respond_friend_request s_pending ''BBBBBB'' (Some ''aaaaaa'') (Some True))
              = [(2, Error ''Friend request not found'')]"
    by (simp add: respond_friend_request_def session_defs helper_defs)
  have f1: "friends_of (fst (respond_friend_request s_pending ''BBBBBB'' (Some ''aaaaaa'')
                               (Some True))) ''BBBBBB'' = {}"
    by (simp add: respond_friend_request_def session_defs helper_defs)
  have r2: "snd (respond_friend_request s_pending ''BBBBBB'' (Some (upper ''aaaaaa''))
                   (Some True))
              = [(2, FriendAdded ''AAAAAA'' None), (1, FriendAdded ''BBBBBB'' None),
                 (2, FriendsList {(''AAAAAA'', None, Some 6, True)}),
                 (1, FriendsList {(''BBBBBB'', None, Some 0, True)})]"
    by (simp add: upper_aaaaaa respond_friend_request_def session_defs helper_defs)
  have f2: "friends_of (fst (respond_friend_request s_pending ''BBBBBB''
                               (Some (upper ''aaaaaa'')) (Some True))) ''BBBBBB''
              = {''AAAAAA''}"
    by (simp add: upper_aaaaaa respond_friend_request_def session_defs helper_defs)
  have d1: "send_message s_friends 9 ''AAAAAA'' (Some ''bbbbbb'') (Some ''ct'')
     \<noteq> send_message s_friends 9 ''AAAAAA'' (Some (upper ''bbbbbb'')) (Some ''ct'')"
  proof
    assume "send_message s_friends 9 ''AAAAAA'' (Some ''bbbbbb'') (Some ''ct'')
      = send_message s_friends 9 ''AAAAAA'' (Some (upper ''bbbbbb'')) (Some ''ct'')"
    then have "snd (send_message s_friends 9 ''AAAAAA'' (Some ''bbbbbb'') (Some ''ct''))
      = snd (send_message s_friends 9 ''AAAAAA'' (Some (upper ''bbbbbb'')) (Some ''ct''))"
      by (rule arg_cong)
    then show False
      by (simp add: m1 m2)
  qed
  have d2: "get_messages s_friends ''AAAAAA'' (Some ''bbbbbb'')
     \<noteq> get_messages s_friends ''AAAAAA'' (Some (upper ''bbbbbb''))"
  proof
    assume "get_messages s_friends ''AAAAAA'' (Some ''bbbbbb'')
      = get_messages s_friends ''AAAAAA'' (Some (upper ''bbbbbb''))"
    then have "snd (get_messages s_friends ''AAAAAA'' (Some ''bbbbbb''))
      = snd (get_messages s_friends ''AAAAAA'' (Some (upper ''bbbbbb'')))"
      by (rule arg_cong)
    then show False
      by (simp add: g1 g2)
  qed
  have d3: "respond_friend_request s_pending ''BBBBBB'' (Some ''aaaaaa'') (Some True)
     \<noteq> respond_friend_request s_pending ''BBBBBB'' (Some (upper ''aaaaaa'')) (Some True)"
  proof
    assume "respond_friend_request s_pending ''BBBBBB'' (Some ''aaaaaa'') (Some True)
      = respond_friend_request s_pending ''BBBBBB'' (Some (upper ''aaaaaa'')) (Some True)"
    then have "snd (respond_friend_request s_pending ''BBBBBB'' (Some ''aaaaaa'') (Some True))
      = snd (respond_friend_request s_pending ''BBBBBB'' (Some (upper ''aaaaaa''))
               (Some True))"
      by (rule arg_cong)
    then show False
      by (simp add: r1 r2)
  qed
  show ?thesis
    by (intro conjI)
       (fact reachable_s_friends reachable_s_pending m1 m2 g1 g2 r1 f1 r2 f2 d1 d2 d3)+
qed

end
